theory Spec2Isabelle
  imports Complex_Main "HOL-Library.AList"
begin

section \<open>Python values\<close>

text \<open>
  The cookie entries read by \<^verbatim>\<open>inject_cookies.py\<close> come out of \<^verbatim>\<open>json.load\<close> and the
  entries written by \<^verbatim>\<open>main.py\<close> go into \<^verbatim>\<open>json.dump\<close>, so a value is one of Python's
  JSON-representable objects. A float is a finite number, an infinity or a NaN; the
  code only ever asks whether it is zero. A dict is an association list in insertion
  order, looked up with \<open>map_of\<close>.
\<close>

datatype pyfloat = FNum real | FInf | FNegInf | FNaN

datatype pyval =
    PNone
  | PBool bool
  | PInt int
  | PFloat pyfloat
  | PStr string
  | PList "pyval list"
  | PDict "(string \<times> pyval) list"

type_synonym pydict = "(string \<times> pyval) list"

datatype error =
    SystemExit
  | TypeError
  | AttributeError
  | RuntimeError
  | FileNotFoundError
  | OSError
  | PlaywrightError
  | CalledProcessError
  | JSONDecodeError
  | UnicodeDecodeError
  | ValueError
  | RecursionError

text \<open>Truth value testing, \<^verbatim>\<open>bool(v)\<close>, \<^verbatim>\<open>not v\<close>, \<^verbatim>\<open>v or d\<close>.\<close>

fun truthy :: "pyval \<Rightarrow> bool" where
  "truthy PNone = False"
| "truthy (PBool b) = b"
| "truthy (PInt n) = (n \<noteq> 0)"
| "truthy (PFloat f) = (f \<noteq> FNum 0)"
| "truthy (PStr s) = (s \<noteq> [])"
| "truthy (PList xs) = (xs \<noteq> [])"
| "truthy (PDict kvs) = (kvs \<noteq> [])"

text \<open>\<^verbatim>\<open>d.get(k, dflt)\<close>; \<^verbatim>\<open>d.get(k)\<close> is \<^verbatim>\<open>d.get(k, None)\<close>.\<close>

definition dict_get :: "pydict \<Rightarrow> string \<Rightarrow> pyval \<Rightarrow> pyval" where
  "dict_get d k dflt = (case map_of d k of None \<Rightarrow> dflt | Some v \<Rightarrow> v)"

text \<open>\<^verbatim>\<open>a or b\<close> on values.\<close>

definition py_or :: "pyval \<Rightarrow> pyval \<Rightarrow> pyval" where
  "py_or a b = (if truthy a then a else b)"

text \<open>\<^verbatim>\<open>isinstance(v, int)\<close>: \<^verbatim>\<open>bool\<close> is a subclass of \<^verbatim>\<open>int\<close>.\<close>

fun as_int :: "pyval \<Rightarrow> int option" where
  "as_int (PInt n) = Some n"
| "as_int (PBool b) = Some (if b then 1 else 0)"
| "as_int _ = None"

text \<open>Lists and dicts are unhashable: a set membership test on them raises TypeError.\<close>

fun hashable :: "pyval \<Rightarrow> bool" where
  "hashable (PList _) = False"
| "hashable (PDict _) = False"
| "hashable _ = True"

section \<open>The calendar of the standard library\<close>

text \<open>
  \<^verbatim>\<open>datetime.strptime\<close>, \<^verbatim>\<open>datetime.timestamp\<close>, \<^verbatim>\<open>time.gmtime\<close> and \<^verbatim>\<open>time.strftime\<close> belong
  to the Python standard library, not to the repository. They are modelled after
  \<^verbatim>\<open>Lib/_pydatetime.py\<close> and \<^verbatim>\<open>Lib/_strptime.py\<close> (proleptic Gregorian calendar, UTC,
  no leap seconds). HOL's \<open>div\<close> and \<open>mod\<close> on \<open>int\<close> round towards minus infinity,
  as Python's \<^verbatim>\<open>//\<close> and \<^verbatim>\<open>%\<close> do. A string is a list of 8-bit characters, among
  which the decimal digits are the ten ASCII ones; floating-point sums are taken as
  sums of reals.
\<close>

definition is_leap :: "int \<Rightarrow> bool" where
  "is_leap y = (y mod 4 = 0 \<and> (y mod 100 \<noteq> 0 \<or> y mod 400 = 0))"

definition DAYS_IN_MONTH :: "int list" where
  "DAYS_IN_MONTH = [-1, 31, 28, 31, 30, 31, 30, 31, 31, 30, 31, 30, 31]"

definition DAYS_BEFORE_MONTH :: "int list" where
  "DAYS_BEFORE_MONTH = [-1, 0, 31, 59, 90, 120, 151, 181, 212, 243, 273, 304, 334]"

definition days_before_year :: "int \<Rightarrow> int" where
  "days_before_year year =
     (let y = year - 1 in y * 365 + y div 4 - y div 100 + y div 400)"

definition days_in_month :: "int \<Rightarrow> int \<Rightarrow> int" where
  "days_in_month year month =
     (if month = 2 \<and> is_leap year then 29 else DAYS_IN_MONTH ! nat month)"

definition days_before_month :: "int \<Rightarrow> int \<Rightarrow> int" where
  "days_before_month year month =
     DAYS_BEFORE_MONTH ! nat month + (if month > 2 \<and> is_leap year then 1 else 0)"

definition ymd2ord :: "int \<Rightarrow> int \<Rightarrow> int \<Rightarrow> int" where
  "ymd2ord year month day = days_before_year year + days_before_month year month + day"

text \<open>The ordinal of 1970-01-01 and the days of 400, 100 and 4 years.\<close>

definition EPOCH_ORD :: int where "EPOCH_ORD = 719163"
definition DI400Y :: int where "DI400Y = 146097"
definition DI100Y :: int where "DI100Y = 36524"
definition DI4Y :: int where "DI4Y = 1461"

definition ord2ymd :: "int \<Rightarrow> int \<times> int \<times> int" where
  "ord2ymd n0 =
    (let n = n0 - 1;
         n400 = n div DI400Y; n = n mod DI400Y;
         year = n400 * 400 + 1;
         n100 = n div DI100Y; n = n mod DI100Y;
         n4 = n div DI4Y; n = n mod DI4Y;
         n1 = n div 365; n = n mod 365;
         year = year + n100 * 100 + n4 * 4 + n1
     in if n1 = 4 \<or> n100 = 4 then (year - 1, 12, 31)
        else
          let leapyear = (n1 = 3 \<and> (n4 \<noteq> 24 \<or> n100 = 3));
              month = (n + 50) div 32;
              preceding = DAYS_BEFORE_MONTH ! nat month
                          + (if month > 2 \<and> leapyear then 1 else 0)
          in if preceding > n
             then let month = month - 1;
                      preceding = preceding - (DAYS_IN_MONTH ! nat month
                                    + (if month = 2 \<and> leapyear then 1 else 0))
                  in (year, month, n - preceding + 1)
             else (year, month, n - preceding + 1))"

record datetime =
  year :: int
  month :: int
  day :: int
  hour :: int
  minute :: int
  second :: int

text \<open>\<^verbatim>\<open>time.gmtime(t)\<close> for whole seconds \<open>t\<close> since the epoch.\<close>

definition gmtime :: "int \<Rightarrow> datetime" where
  "gmtime t =
    (let days = t div 86400; rem = t mod 86400;
         (y, m, d) = ord2ymd (days + EPOCH_ORD)
     in \<lparr>year = y, month = m, day = d,
         hour = rem div 3600, minute = rem mod 3600 div 60, second = rem mod 60\<rparr>)"

text \<open>
  \<^verbatim>\<open>datetime.replace(tzinfo=timezone.utc).timestamp()\<close>: the seconds between the
  date-time and 1970-01-01T00:00:00 UTC, a whole number here.
\<close>

definition timestamp :: "datetime \<Rightarrow> int" where
  "timestamp dt =
     (ymd2ord (year dt) (month dt) (day dt) - EPOCH_ORD) * 86400
       + hour dt * 3600 + minute dt * 60 + second dt"

subsection \<open>Formatting with \<^verbatim>\<open>%Y-%m-%dT%H:%M:%SZ\<close>\<close>

definition digit_char :: "int \<Rightarrow> char" where
  "digit_char n = char_of (48 + n)"

text \<open>\<^verbatim>\<open>%m\<close>, \<^verbatim>\<open>%d\<close>, \<^verbatim>\<open>%H\<close>, \<^verbatim>\<open>%M\<close>, \<^verbatim>\<open>%S\<close>: two digits, zero padded.\<close>

definition pad2 :: "int \<Rightarrow> string" where
  "pad2 n = [digit_char (n div 10), digit_char (n mod 10)]"

text \<open>\<^verbatim>\<open>%Y\<close>: the year in decimal, as the C library prints it (no padding).\<close>

fun decimal :: "nat \<Rightarrow> string" where
  "decimal n = (if n < 10 then [digit_char (int n)]
                else decimal (n div 10) @ [digit_char (int (n mod 10))])"

declare decimal.simps [simp del]

definition fmt_year :: "int \<Rightarrow> string" where
  "fmt_year y = (if y < 0 then CHR ''-'' # decimal (nat (- y)) else decimal (nat y))"

definition strftime :: "datetime \<Rightarrow> string" where
  "strftime dt =
     fmt_year (year dt) @ ''-'' @ pad2 (month dt) @ ''-'' @ pad2 (day dt) @ ''T''
       @ pad2 (hour dt) @ '':'' @ pad2 (minute dt) @ '':'' @ pad2 (second dt) @ ''Z''"

subsection \<open>Parsing with \<^verbatim>\<open>%Y-%m-%dT%H:%M:%SZ\<close>\<close>

text \<open>
  \<^verbatim>\<open>_strptime\<close> turns the format into a regular expression, compiled with IGNORECASE:
  \<^verbatim>\<open>%Y\<close> is \<^verbatim>\<open>\d\d\d\d\<close>, \<^verbatim>\<open>%m\<close> is \<^verbatim>\<open>1[0-2]|0[1-9]|[1-9]\<close>,
  \<^verbatim>\<open>%d\<close> is \<^verbatim>\<open>3[0-1]|[1-2]\d|0[1-9]|[1-9]| [1-9]\<close>, \<^verbatim>\<open>%H\<close> is \<^verbatim>\<open>2[0-3]|[0-1]\d|\d\<close>,
  \<^verbatim>\<open>%M\<close> is \<^verbatim>\<open>[0-5]\d|\d\<close>, \<^verbatim>\<open>%S\<close> is \<^verbatim>\<open>6[0-1]|[0-5]\d|\d\<close>.
  A matcher returns every way of matching a prefix, in the order in which the
  backtracking engine tries them, each with the value read and the rest of the input.
\<close>

type_synonym 'a matcher = "string \<Rightarrow> ('a \<times> string) list"

text \<open>The character class \<^verbatim>\<open>[lo-hi]\<close> of decimal digits.\<close>

fun rng :: "int \<Rightarrow> int \<Rightarrow> int matcher" where
  "rng lo hi [] = []"
| "rng lo hi (c # cs) =
     (if 48 + lo \<le> of_char c \<and> of_char c \<le> 48 + hi then [(of_char c - 48, cs)] else [])"

declare rng.simps [simp del]

text \<open>Two digit classes in sequence, read as a two-digit number.\<close>

definition two :: "int matcher \<Rightarrow> int matcher \<Rightarrow> int matcher" where
  "two p q s = [(10 * a + b, r'). (a, r) \<leftarrow> p s, (b, r') \<leftarrow> q r]"

text \<open>A literal character; with IGNORECASE a letter matches in both cases.\<close>

fun lit :: "char list \<Rightarrow> string \<Rightarrow> string list" where
  "lit cs [] = []"
| "lit cs (x # xs) = (if x \<in> set cs then [xs] else [])"

definition re_Y :: "int matcher" where
  "re_Y s = [(100 * a + b, r'). (a, r) \<leftarrow> two (rng 0 9) (rng 0 9) s,
                                 (b, r') \<leftarrow> two (rng 0 9) (rng 0 9) r]"

definition re_m :: "int matcher" where
  "re_m s = two (rng 1 1) (rng 0 2) s @ two (rng 0 0) (rng 1 9) s @ rng 1 9 s"

definition re_d :: "int matcher" where
  "re_d s = two (rng 3 3) (rng 0 1) s @ two (rng 1 2) (rng 0 9) s
            @ two (rng 0 0) (rng 1 9) s @ rng 1 9 s
            @ [(b, r'). r \<leftarrow> lit '' '' s, (b, r') \<leftarrow> rng 1 9 r]"

definition re_H :: "int matcher" where
  "re_H s = two (rng 2 2) (rng 0 3) s @ two (rng 0 1) (rng 0 9) s @ rng 0 9 s"

definition re_M :: "int matcher" where
  "re_M s = two (rng 0 5) (rng 0 9) s @ rng 0 9 s"

definition re_S :: "int matcher" where
  "re_S s = two (rng 6 6) (rng 0 1) s @ two (rng 0 5) (rng 0 9) s @ rng 0 9 s"

definition format_regex :: "datetime matcher" where
  "format_regex s =
     [(\<lparr>year = Y, month = m, day = d, hour = H, minute = M, second = S\<rparr>, r12).
        (Y, r1) \<leftarrow> re_Y s, r2 \<leftarrow> lit ''-'' r1,
        (m, r3) \<leftarrow> re_m r2, r4 \<leftarrow> lit ''-'' r3,
        (d, r5) \<leftarrow> re_d r4, r6 \<leftarrow> lit ''Tt'' r5,
        (H, r7) \<leftarrow> re_H r6, r8 \<leftarrow> lit '':'' r7,
        (M, r9) \<leftarrow> re_M r8, r10 \<leftarrow> lit '':'' r9,
        (S, r11) \<leftarrow> re_S r10, r12 \<leftarrow> lit ''Zz'' r11]"

text \<open>
  The checks of the \<^verbatim>\<open>date\<close> and \<^verbatim>\<open>datetime\<close> constructors: a year from 1 to 9999, a day
  that exists in its month, a second below 60 (the expression lets 60 and 61 through).
\<close>

definition valid_datetime :: "datetime \<Rightarrow> bool" where
  "valid_datetime dt =
     (1 \<le> year dt \<and> year dt \<le> 9999 \<and> 1 \<le> month dt \<and> month dt \<le> 12
      \<and> 1 \<le> day dt \<and> day dt \<le> days_in_month (year dt) (month dt)
      \<and> 0 \<le> hour dt \<and> hour dt \<le> 23 \<and> 0 \<le> minute dt \<and> minute dt \<le> 59
      \<and> 0 \<le> second dt \<and> second dt \<le> 59)"

text \<open>
  \<^verbatim>\<open>datetime.strptime(s, "%Y-%m-%dT%H:%M:%SZ")\<close>; \<open>None\<close> is ValueError: no match, text
  left over after the first match, or a date-time that does not exist.
\<close>

definition strptime :: "string \<Rightarrow> datetime option" where
  "strptime s =
     (case format_regex s of
        [] \<Rightarrow> None
      | (dt, rest) # _ \<Rightarrow>
          if rest \<noteq> [] then None
          else if valid_datetime dt then Some dt else None)"

section \<open>inject\_cookies.py: the import adapter\<close>

text \<open>
  \<^verbatim>\<open>iso_to_epoch(ts)\<close>: a falsy argument gives 0, a ValueError of strptime gives 0, and
  a truthy argument that is not a string makes strptime raise TypeError, which is
  not caught.
\<close>

definition iso_to_epoch :: "pyval \<Rightarrow> error + int" where
  "iso_to_epoch ts =
     (if \<not> truthy ts then Inr 0
      else case ts of
             PStr s \<Rightarrow> (case strptime s of Some dt \<Rightarrow> Inr (timestamp dt) | None \<Rightarrow> Inr 0)
           | _ \<Rightarrow> Inl TypeError)"

definition same_site_map :: "int \<rightharpoonup> string" where
  "same_site_map = [0 \<mapsto> ''Lax'', 1 \<mapsto> ''Strict'', 2 \<mapsto> ''None'']"

definition adapt_cookie :: "pydict \<Rightarrow> error + pydict" where
  "adapt_cookie cookie =
    (let adapted =
           [(''name'', dict_get cookie ''Name'' (PStr '''')),
            (''value'', dict_get cookie ''Value'' (PStr '''')),
            (''domain'', py_or (dict_get cookie ''Domain'' PNone) (PStr ''.x.com'')),
            (''path'', py_or (dict_get cookie ''Path'' PNone) (PStr ''/'')),
            (''secure'', PBool (truthy (dict_get cookie ''Secure'' (PBool True)))),
            (''httpOnly'', PBool (truthy (dict_get cookie ''HttpOnly'' (PBool False)))),
            (''sameSite'', dict_get cookie ''SameSite'' PNone)];
         adapted =
           (case as_int (dict_get adapted ''sameSite'' PNone) of
              Some n \<Rightarrow>
                AList.update ''sameSite''
                  (PStr (case same_site_map n of Some l \<Rightarrow> l | None \<Rightarrow> ''Lax'')) adapted
            | None \<Rightarrow> adapted);
         same_site = dict_get adapted ''sameSite'' PNone
     in if \<not> hashable same_site then Inl TypeError
        else
          let adapted =
                (if same_site \<notin> {PStr ''Lax'', PStr ''Strict'', PStr ''None''}
                 then AList.delete ''sameSite'' adapted else adapted)
          in case iso_to_epoch (dict_get cookie ''Expires'' PNone) of
               Inl e \<Rightarrow> Inl e
             | Inr expires \<Rightarrow>
                 if expires > 0 then Inr (AList.update ''expires'' (PInt expires) adapted)
                 else Inr (AList.delete ''expires'' adapted))"

text \<open>
  The list comprehension of \<^verbatim>\<open>inject_and_open\<close>,
  \<^verbatim>\<open>[adapt_cookie(item) for item in cookies if item.get("Name")]\<close>: the entries
  are visited in order, \<^verbatim>\<open>item.get\<close> raises AttributeError on an entry that is not a
  dict, and the first exception ends the evaluation.
\<close>

fun adapt_all :: "pyval list \<Rightarrow> error + pydict list" where
  "adapt_all [] = Inr []"
| "adapt_all (item # items) =
     (case item of
        PDict d \<Rightarrow>
          if truthy (dict_get d ''Name'' PNone)
          then (case adapt_cookie d of
                  Inl e \<Rightarrow> Inl e
                | Inr a \<Rightarrow> (case adapt_all items of Inl e \<Rightarrow> Inl e | Inr as \<Rightarrow> Inr (a # as)))
          else adapt_all items
      | _ \<Rightarrow> Inl AttributeError)"

section \<open>inject\_cookies.py: loading and injecting\<close>

text \<open>
  The command line after \<^verbatim>\<open>parse_args\<close>: \<^verbatim>\<open>--cookie-file\<close> (absent or a path),
  \<^verbatim>\<open>--endpoint\<close> and \<^verbatim>\<open>--username\<close>, the defaults from the environment already
  filled in.
\<close>

record args =
  cookie_file :: "string option"
  endpoint :: string
  username :: string

text \<open>
  What \<^verbatim>\<open>path.open\<close> followed by \<^verbatim>\<open>json.load\<close> gives: the loaded value, or the
  exception raised on the way. That is OSError when the file cannot be opened,
  UnicodeDecodeError when its bytes are not UTF-8, JSONDecodeError when the text is
  not JSON, ValueError when an integer literal has more digits than the interpreter
  converts, RecursionError when the nesting is deeper than the interpreter follows.
\<close>

datatype file_read = Raises error | Loaded pyval

text \<open>
  The world around the import run: the cookies directory (fixed by where the script
  is installed), the file system, and how the browser answers. Effects on the
  browser are recorded as a trace of events.
\<close>

record inject_world =
  COOKIES_DIR :: string
  path_exists :: "string \<Rightarrow> bool"
  read_file :: "string \<Rightarrow> file_read"
  cdp_reachable :: bool
  has_contexts :: bool
  add_cookies_ok :: bool
  goto_ok :: bool

datatype event =
    Connect string
  | AddCookies "pydict list"
  | Goto string
  | WriteFile string "pydict list"
  | RunScraper "string list"
  | BrowserClose

definition resolve_cookie_file :: "inject_world \<Rightarrow> args \<Rightarrow> error + string" where
  "resolve_cookie_file w a =
     (case cookie_file a of
        Some p \<Rightarrow> Inr p
      | None \<Rightarrow>
          if username a = [] then Inl SystemExit
          else let candidate = COOKIES_DIR w @ ''/'' @ username a @ ''_twitter_cookies.json''
               in if \<not> path_exists w candidate then Inl SystemExit else Inr candidate)"

text \<open>
  \<^verbatim>\<open>load_cookies\<close>: the \<^verbatim>\<open>except\<close> clause catches \<^verbatim>\<open>json.JSONDecodeError\<close> alone and
  raises SystemExit in its place; any other exception leaves the function as it is.
\<close>

definition load_cookies :: "inject_world \<Rightarrow> string \<Rightarrow> error + pyval list" where
  "load_cookies w path =
     (case read_file w path of
        Raises e \<Rightarrow> if e = JSONDecodeError then Inl SystemExit else Inl e
      | Loaded data \<Rightarrow> (case data of PList xs \<Rightarrow> Inr xs | _ \<Rightarrow> Inl SystemExit))"

text \<open>
  \<^verbatim>\<open>inject_and_open\<close> returns the trace of browser events together with the exception
  that ended it, if any.
\<close>

definition inject_and_open ::
  "inject_world \<Rightarrow> string \<Rightarrow> pyval list \<Rightarrow> event list \<times> error option" where
  "inject_and_open w ep cookies =
     (if \<not> cdp_reachable w then ([], Some PlaywrightError)
      else if \<not> has_contexts w then ([Connect ep], Some RuntimeError)
      else case adapt_all cookies of
             Inl e \<Rightarrow> ([Connect ep], Some e)
           | Inr adapted \<Rightarrow>
               if adapted = [] then ([Connect ep], Some SystemExit)
               else if \<not> add_cookies_ok w then ([Connect ep], Some PlaywrightError)
               else if \<not> goto_ok w
                    then ([Connect ep, AddCookies adapted], Some PlaywrightError)
                    else ([Connect ep, AddCookies adapted, Goto ''https://x.com'', BrowserClose],
                          None))"

text \<open>\<^verbatim>\<open>main\<close> of inject\_cookies.py.\<close>

definition inject_main :: "inject_world \<Rightarrow> args \<Rightarrow> event list \<times> error option" where
  "inject_main w a =
     (case resolve_cookie_file w a of
        Inl e \<Rightarrow> ([], Some e)
      | Inr cookie_path \<Rightarrow>
          (case load_cookies w cookie_path of
             Inl e \<Rightarrow> ([], Some e)
           | Inr cookies \<Rightarrow> inject_and_open w (endpoint a) cookies))"

section \<open>main.py: the export adapter\<close>

definition COOKIE_NAMES :: "string list" where
  "COOKIE_NAMES = [''personalization_id'', ''kdt'', ''twid'', ''ct0'', ''auth_token'', ''att'']"

text \<open>
  \<^verbatim>\<open>get_future_date(days)\<close> reads the clock and draws a jitter: \<open>now\<close> is the value of
  \<^verbatim>\<open>time.time()\<close>, \<open>jitter\<close> that of \<^verbatim>\<open>random.uniform(0, 3600)\<close>. \<^verbatim>\<open>time.gmtime\<close> drops
  the fraction of a second.
\<close>

definition future_seconds :: "real \<Rightarrow> real \<Rightarrow> int \<Rightarrow> int" where
  "future_seconds now jitter days = \<lfloor>now + of_int (days * 24 * 3600) + jitter\<rfloor>"

definition get_future_date :: "real \<Rightarrow> real \<Rightarrow> int \<Rightarrow> string" where
  "get_future_date now jitter days = strftime (gmtime (future_seconds now jitter days))"

definition dquote :: char where
  "dquote = CHR 0x22"

definition create_cookie_template :: "string \<Rightarrow> string \<Rightarrow> string \<Rightarrow> pydict" where
  "create_cookie_template name val expires =
     [(''Name'', PStr name),
      (''Value'', PStr (filter (\<lambda>c. c \<noteq> dquote) val)),
      (''Path'', PStr []),
      (''Domain'', PStr ''twitter.com''),
      (''Expires'', PStr expires),
      (''RawExpires'', PStr []),
      (''MaxAge'', PInt 0),
      (''Secure'', PBool False),
      (''HttpOnly'', PBool False),
      (''SameSite'', PInt 0),
      (''Raw'', PStr []),
      (''Unparsed'', PNone)]"

text \<open>
  The two calls of \<^verbatim>\<open>get_future_date\<close> in \<^verbatim>\<open>build_cookie_payload\<close> each read the clock
  and draw a jitter of their own.
\<close>

record clock =
  now_week :: real
  jitter_week :: real
  now_month :: real
  jitter_month :: real

text \<open>\<^verbatim>\<open>cookie_values\<close> is a \<^verbatim>\<open>Dict[str, str]\<close>.\<close>

definition build_cookie_payload :: "clock \<Rightarrow> (string \<times> string) list \<Rightarrow> pydict list" where
  "build_cookie_payload clk cookie_values =
     (let one_week = get_future_date (now_week clk) (jitter_week clk) 7;
          one_month = get_future_date (now_month clk) (jitter_month clk) 30
      in map (\<lambda>name.
                let expires = (if name \<in> {''personalization_id'', ''kdt''}
                               then one_month else one_week)
                in create_cookie_template name
                     (case map_of cookie_values name of None \<Rightarrow> [] | Some v \<Rightarrow> v) expires)
             COOKIE_NAMES)"

text \<open>
  \<^verbatim>\<open>extract_cookies\<close>: the cookies of the browser context are dicts whose \<^verbatim>\<open>name\<close> and
  \<^verbatim>\<open>value\<close> are strings; the first cookie with the name wins, a missing one gives
  the empty string.
\<close>

definition extract_cookies :: "(string \<times> string) list list \<Rightarrow> (string \<times> string) list" where
  "extract_cookies cookies =
     map (\<lambda>name.
            (name,
             case find (\<lambda>item. map_of item ''name'' = Some name) cookies of
               None \<Rightarrow> []
             | Some m \<Rightarrow> (case map_of m ''value'' of None \<Rightarrow> [] | Some v \<Rightarrow> v)))
         COOKIE_NAMES"

section \<open>main.py: the orchestrator\<close>

datatype connection = ConnectFails | NoContexts | Connected

text \<open>
  The world around the export run. \<open>CDP_ENDPOINT\<close> is the variable or its default;
  \<open>X_ACCOUNT\<close>, \<open>X_AUTH_TOKEN\<close> and
  \<open>TERMINAL_RPOXY\<close> are the environment variables after \<^verbatim>\<open>strip()\<close>, an unset one
  being empty, as is an unset \<open>SCRAPER_TEST_QUERY\<close>; \<open>SKIP_SCRAPER_TEST\<close> says
  whether the variable reads true; the probes are what \<^verbatim>\<open>is_logged_in\<close> finds (an exception other than
  the timeout is \<open>Inl\<close>); \<open>jar\<close> is what \<^verbatim>\<open>context.cookies()\<close> returns.
\<close>

record export_world =
  X_ACCOUNT :: string
  X_AUTH_TOKEN :: string
  CDP_ENDPOINT :: string
  connection :: connection
  first_probe :: "error + bool"
  login_goto_ok :: bool
  login_now :: real
  second_probe :: "error + bool"
  jar :: "error + (string \<times> string) list list"
  clock :: clock
  OUTPUT_DIR :: string
  PROJECT_ROOT :: string
  can_write :: bool
  SKIP_SCRAPER_TEST :: bool
  SCRAPER_TEST_QUERY :: string
  SCRAPER_TEST_COUNT :: "string option"
  TERMINAL_RPOXY :: string
  binary_exists :: bool
  scraper_result :: "error option"

text \<open>\<^verbatim>\<open>int(x)\<close> on a float rounds towards zero.\<close>

definition py_int :: "real \<Rightarrow> int" where
  "py_int x = (if 0 \<le> x then \<lfloor>x\<rfloor> else \<lceil>x\<rceil>)"

definition login_with_token :: "export_world \<Rightarrow> string \<Rightarrow> event list \<times> (error + bool)" where
  "login_with_token w auth_token =
     (if \<not> login_goto_ok w then ([], Inl PlaywrightError)
      else
        let expiration_time = py_int (login_now w) + 365 * 24 * 60 * 60;
            cookie = [(''name'', PStr ''auth_token''), (''value'', PStr auth_token),
                      (''domain'', PStr ''.x.com''), (''path'', PStr ''/''),
                      (''expires'', PInt expiration_time), (''secure'', PBool True),
                      (''httpOnly'', PBool False), (''sameSite'', PStr ''Lax'')]
        in ([AddCookies [cookie]], second_probe w))"

definition save_cookies ::
  "export_world \<Rightarrow> string \<Rightarrow> pydict list \<Rightarrow> event list \<times> (error + string)" where
  "save_cookies w user cookies_payload =
     (let output_path = OUTPUT_DIR w @ ''/'' @ user @ ''_twitter_cookies.json''
      in if can_write w then ([WriteFile output_path cookies_payload], Inr output_path)
         else ([], Inl OSError))"

definition run_scraper_smoke_test ::
  "export_world \<Rightarrow> string \<Rightarrow> string \<Rightarrow> event list \<times> error option" where
  "run_scraper_smoke_test w cookie_path user =
     (if SKIP_SCRAPER_TEST w then ([], None)
      else
        let query = (if SCRAPER_TEST_QUERY w \<noteq> [] then SCRAPER_TEST_QUERY w
                     else ''from:'' @ user);
            count = (case SCRAPER_TEST_COUNT w of None \<Rightarrow> ''5'' | Some c \<Rightarrow> c);
            binary_path = PROJECT_ROOT w @ ''/twitter-scraper/twitter-scraper''
        in if \<not> binary_exists w then ([], Some FileNotFoundError)
           else
             let cmd = [binary_path, ''-cookies'', cookie_path, ''-query'', query,
                        ''-count'', count, ''-json''];
                 cmd = (if TERMINAL_RPOXY w \<noteq> [] then cmd @ [''-proxy'', TERMINAL_RPOXY w]
                        else cmd)
             in ([RunScraper cmd], scraper_result w))"

text \<open>
  The part of \<^verbatim>\<open>main\<close> from \<^verbatim>\<open>extract_cookies\<close> on. Every exception is caught and
  logged by \<^verbatim>\<open>main\<close>, so only the trace remains.
\<close>

definition extract_and_save :: "export_world \<Rightarrow> event list" where
  "extract_and_save w =
     (case jar w of
        Inl e \<Rightarrow> []
      | Inr browser_cookies \<Rightarrow>
          let cookies = extract_cookies browser_cookies;
              missing = [name. (name, val) \<leftarrow> cookies, val = []]
          in if missing \<noteq> [] then []
             else
               let payload = build_cookie_payload (clock w) cookies
               in case save_cookies w (X_ACCOUNT w) payload of
                    (evs, Inl e) \<Rightarrow> evs
                  | (evs, Inr cookie_path) \<Rightarrow>
                      evs @ fst (run_scraper_smoke_test w cookie_path (X_ACCOUNT w)))"

text \<open>
  \<^verbatim>\<open>main\<close> of main.py. The browser is closed in the \<^verbatim>\<open>finally\<close> clause when
  \<^verbatim>\<open>connect_existing_browser\<close> has returned one.
\<close>

definition main :: "export_world \<Rightarrow> event list" where
  "main w =
     (if X_ACCOUNT w = [] then []
      else case connection w of
             ConnectFails \<Rightarrow> []
           | NoContexts \<Rightarrow> [Connect (CDP_ENDPOINT w)]
           | Connected \<Rightarrow>
               Connect (CDP_ENDPOINT w) #
               (case first_probe w of
                  Inl e \<Rightarrow> []
                | Inr True \<Rightarrow> extract_and_save w
                | Inr False \<Rightarrow>
                    if X_AUTH_TOKEN w = [] then []
                    else (case login_with_token w (X_AUTH_TOKEN w) of
                            (evs, Inl e) \<Rightarrow> evs
                          | (evs, Inr False) \<Rightarrow> evs
                          | (evs, Inr True) \<Rightarrow> evs @ extract_and_save w))
               @ [BrowserClose])"

section \<open>Auxiliary notions for the proofs\<close>

text \<open>
  The length of a month and the days before it, with the leap flag as an argument,
  and the sets of characters that contain no decimal digit.
\<close>

definition DIM :: "bool \<Rightarrow> int \<Rightarrow> int" where
  "DIM leap m = (if m = 2 \<and> leap then 29 else DAYS_IN_MONTH ! nat m)"

definition DBM :: "bool \<Rightarrow> int \<Rightarrow> int" where
  "DBM leap m = DAYS_BEFORE_MONTH ! nat m + (if m > 2 \<and> leap then 1 else 0)"

definition sep :: "char list \<Rightarrow> bool" where
  "sep cs = (\<forall>c \<in> set cs. (of_char c :: int) < 48 \<or> 57 < (of_char c :: int))"

text \<open>\<^verbatim>\<open>k in d\<close>.\<close>

definition has_key :: "pydict \<Rightarrow> string \<Rightarrow> bool" where
  "has_key d k = (map_of d k \<noteq> None)"

text \<open>\<^verbatim>\<open>same_site_map.get(n, "Lax")\<close>.\<close>

definition same_site_label :: "int \<Rightarrow> string" where
  "same_site_label n = (case same_site_map n of Some l \<Rightarrow> l | None \<Rightarrow> ''Lax'')"

text \<open>The six keys of \<^verbatim>\<open>adapted\<close> that \<^verbatim>\<open>adapt_cookie\<close> never removes.\<close>

definition base_fields :: "pydict \<Rightarrow> pydict" where
  "base_fields cookie =
     [(''name'', dict_get cookie ''Name'' (PStr '''')),
      (''value'', dict_get cookie ''Value'' (PStr '''')),
      (''domain'', py_or (dict_get cookie ''Domain'' PNone) (PStr ''.x.com'')),
      (''path'', py_or (dict_get cookie ''Path'' PNone) (PStr ''/'')),
      (''secure'', PBool (truthy (dict_get cookie ''Secure'' (PBool True)))),
      (''httpOnly'', PBool (truthy (dict_get cookie ''HttpOnly'' (PBool False))))]"

text \<open>The value under \<^verbatim>\<open>sameSite\<close> after the \<^verbatim>\<open>isinstance\<close> step.\<close>

definition same_site_value :: "pyval \<Rightarrow> pyval" where
  "same_site_value v = (case as_int v of Some n \<Rightarrow> PStr (same_site_label n) | None \<Rightarrow> v)"

text \<open>The instant that \<^verbatim>\<open>build_cookie_payload\<close> formats into the entry of a name.\<close>

definition synth_seconds :: "clock \<Rightarrow> string \<Rightarrow> int" where
  "synth_seconds clk name =
     (if name \<in> {''personalization_id'', ''kdt''}
      then future_seconds (now_month clk) (jitter_month clk) 30
      else future_seconds (now_week clk) (jitter_week clk) 7)"

text \<open>The events that write the cookie file or start the external scraper.\<close>

fun persists :: "event \<Rightarrow> bool" where
  "persists (WriteFile p c) = True"
| "persists (RunScraper cmd) = True"
| "persists _ = False"

text \<open>The events that add cookies to the browser context.\<close>

fun injects :: "event \<Rightarrow> bool" where
  "injects (AddCookies cs) = True"
| "injects _ = False"

text \<open>The entries of a loaded list that are dicts with a truthy \<^verbatim>\<open>Name\<close>.\<close>

fun named_entries :: "pyval list \<Rightarrow> pydict list" where
  "named_entries [] = []"
| "named_entries (PDict d # items) =
     (if truthy (dict_get d ''Name'' PNone) then d # named_entries items
      else named_entries items)"
| "named_entries (_ # items) = named_entries items"

text \<open>
  A browser whose jar lacks twid, in a world where everything else succeeds; a
  cookie file whose top-level value is an object; and cookie files whose loading
  raises a given exception.
\<close>

definition incomplete_jar :: "(string \<times> string) list list" where
  "incomplete_jar =
     [[(''name'', ''personalization_id''), (''value'', ''p1'')],
      [(''name'', ''kdt''), (''value'', ''k1'')],
      [(''name'', ''ct0''), (''value'', ''c1'')],
      [(''name'', ''auth_token''), (''value'', ''a1'')],
      [(''name'', ''att''), (''value'', ''t1'')]]"

definition incomplete_world :: export_world where
  "incomplete_world =
     \<lparr>X_ACCOUNT = ''alice'', X_AUTH_TOKEN = [], CDP_ENDPOINT = ''http://localhost:9222'',
      connection = Connected, first_probe = Inr True, login_goto_ok = True, login_now = 0,
      second_probe = Inr True, jar = Inr incomplete_jar,
      clock = \<lparr>now_week = 1700000000, jitter_week = 1800,
                now_month = 1700000000, jitter_month = 1800\<rparr>,
      OUTPUT_DIR = ''cookies'', PROJECT_ROOT = ''src'', can_write = True,
      SKIP_SCRAPER_TEST = False, SCRAPER_TEST_QUERY = [], SCRAPER_TEST_COUNT = None,
      TERMINAL_RPOXY = [], binary_exists = True, scraper_result = None\<rparr>"

definition non_list_world :: inject_world where
  "non_list_world =
     \<lparr>COOKIES_DIR = ''cookies'', path_exists = (\<lambda>p. True),
      read_file = (\<lambda>p. Loaded (PDict [(''Name'', PStr ''ct0'')])),
      cdp_reachable = True, has_contexts = True, add_cookies_ok = True, goto_ok = True\<rparr>"

definition raising_world :: "error \<Rightarrow> inject_world" where
  "raising_world e = non_list_world\<lparr>read_file := (\<lambda>p. Raises e)\<rparr>"

section \<open>The calendar: ordinals and dates\<close>

lemma year_part:
  fixes n400 n100 n4 n1 :: int
  assumes "0 \<le> n100" "n100 \<le> 3" "0 \<le> n4" "n4 \<le> 24" "0 \<le> n1" "n1 \<le> 3"
  shows "days_before_year (n400 * 400 + 1 + n100 * 100 + n4 * 4 + n1)
         = n400 * 146097 + n100 * 36524 + n4 * 1461 + n1 * 365"
proof -
  define Y where "Y = n400 * 400 + n100 * 100 + n4 * 4 + n1"
  have d4: "Y div 4 = 100 * n400 + 25 * n100 + n4"
    by (rule int_div_pos_eq [where r = n1]) (use assms in \<open>simp_all add: Y_def\<close>)
  have d100: "Y div 100 = 4 * n400 + n100"
    by (rule int_div_pos_eq [where r = "4 * n4 + n1"]) (use assms in \<open>simp_all add: Y_def\<close>)
  have d400: "Y div 400 = n400"
    by (rule int_div_pos_eq [where r = "100 * n100 + 4 * n4 + n1"])
       (use assms in \<open>simp_all add: Y_def\<close>)
  have "n400 * 400 + 1 + n100 * 100 + n4 * 4 + n1 = Y + 1"
    by (simp add: Y_def)
  then have "days_before_year (n400 * 400 + 1 + n100 * 100 + n4 * 4 + n1)
             = Y * 365 + Y div 4 - Y div 100 + Y div 400"
    by (simp add: days_before_year_def Let_def)
  also have "\<dots> = Y * 365 + (100 * n400 + 25 * n100 + n4) - (4 * n400 + n100) + n400"
    by (simp only: d4 d100 d400)
  also have "\<dots> = n400 * 146097 + n100 * 36524 + n4 * 1461 + n1 * 365"
    by (simp add: Y_def)
  finally show ?thesis .
qed

lemma mod_zero_top:
  fixes x k :: int
  assumes "0 < x" "x \<le> k"
  shows "(x mod k = 0) = (x = k)"
proof (cases "x = k")
  case True
  then show ?thesis by simp
next
  case False
  with assms have "x mod k = x" by simp
  with assms False show ?thesis by simp
qed

lemma leap_part:
  fixes n400 n100 n4 n1 :: int
  assumes "0 \<le> n100" "n100 \<le> 3" "0 \<le> n4" "n4 \<le> 24" "0 \<le> n1" "n1 \<le> 3"
  shows "is_leap (n400 * 400 + 1 + n100 * 100 + n4 * 4 + n1)
         = (n1 = 3 \<and> (n4 \<noteq> 24 \<or> n100 = 3))"
proof -
  define Y where "Y = n400 * 400 + 1 + n100 * 100 + n4 * 4 + n1"
  have "Y = (n1 + 1) + (100 * n400 + 25 * n100 + n4) * 4" by (simp add: Y_def)
  then have m4: "Y mod 4 = (n1 + 1) mod 4" by (simp only: mod_mult_self1)
  have "Y = (4 * n4 + n1 + 1) + (4 * n400 + n100) * 100" by (simp add: Y_def)
  then have m100: "Y mod 100 = (4 * n4 + n1 + 1) mod 100" by (simp only: mod_mult_self1)
  have "Y = (100 * n100 + 4 * n4 + n1 + 1) + n400 * 400" by (simp add: Y_def)
  then have m400: "Y mod 400 = (100 * n100 + 4 * n4 + n1 + 1) mod 400"
    by (simp only: mod_mult_self1)
  have a: "(Y mod 4 = 0) = (n1 = 3)"
  proof -
    have "0 < n1 + 1" "n1 + 1 \<le> 4" using assms by linarith+
    then have "((n1 + 1) mod 4 = 0) = (n1 + 1 = 4)" by (rule mod_zero_top)
    also have "\<dots> = (n1 = 3)" by linarith
    finally show ?thesis unfolding m4 .
  qed
  have b: "(Y mod 100 = 0) = (n4 = 24 \<and> n1 = 3)"
  proof -
    have "0 < 4 * n4 + n1 + 1" "4 * n4 + n1 + 1 \<le> 100" using assms by linarith+
    then have "((4 * n4 + n1 + 1) mod 100 = 0) = (4 * n4 + n1 + 1 = 100)"
      by (rule mod_zero_top)
    also have "\<dots> = (n4 = 24 \<and> n1 = 3)" using assms by arith
    finally show ?thesis unfolding m100 .
  qed
  have c: "(Y mod 400 = 0) = (n100 = 3 \<and> n4 = 24 \<and> n1 = 3)"
  proof -
    have "0 < 100 * n100 + 4 * n4 + n1 + 1" "100 * n100 + 4 * n4 + n1 + 1 \<le> 400"
      using assms by linarith+
    then have "((100 * n100 + 4 * n4 + n1 + 1) mod 400 = 0)
               = (100 * n100 + 4 * n4 + n1 + 1 = 400)"
      by (rule mod_zero_top)
    also have "\<dots> = (n100 = 3 \<and> n4 = 24 \<and> n1 = 3)" using assms by arith
    finally show ?thesis unfolding m400 .
  qed
  show ?thesis
    unfolding is_leap_def Y_def [symmetric] a b c by auto
qed

lemma month_part:
  fixes n :: int and leap :: bool
  assumes n: "0 \<le> n" "n < 365 + (if leap then 1 else 0)"
  defines "mon \<equiv> (n + 50) div 32"
  defines "preceding \<equiv> DAYS_BEFORE_MONTH ! nat mon + (if mon > 2 \<and> leap then 1 else 0)"
  defines "res \<equiv> (if preceding > n
                   then (mon - 1, n - (preceding - (DAYS_IN_MONTH ! nat (mon - 1)
                           + (if mon - 1 = 2 \<and> leap then 1 else 0))) + 1)
                   else (mon, n - preceding + 1))"
  shows "1 \<le> fst res \<and> fst res \<le> 12 \<and> 1 \<le> snd res \<and> snd res \<le> DIM leap (fst res)
         \<and> DBM leap (fst res) + snd res = n + 1"
proof -
  have lo: "32 * mon \<le> n + 50" and hi: "n + 50 < 32 * mon + 32"
    unfolding mon_def by arith+
  from n lo hi have "1 \<le> mon" "mon \<le> 12" by (auto split: if_splits)
  then have "mon = 1 \<or> mon = 2 \<or> mon = 3 \<or> mon = 4 \<or> mon = 5 \<or> mon = 6
    \<or> mon = 7 \<or> mon = 8 \<or> mon = 9 \<or> mon = 10 \<or> mon = 11 \<or> mon = 12"
    by presburger
  with n lo hi show ?thesis
    by (elim disjE)
       (simp_all add: res_def preceding_def DIM_def DBM_def DAYS_IN_MONTH_def
          DAYS_BEFORE_MONTH_def)
qed

lemma days_in_month_DIM: "days_in_month y m = DIM (is_leap y) m"
  by (simp add: days_in_month_def DIM_def)

lemma ymd2ord_DBM: "ymd2ord y m d = days_before_year y + DBM (is_leap y) m + d"
  by (simp add: ymd2ord_def days_before_month_def DBM_def)

lemma ord2ymd_inverse:
  assumes "ord2ymd n = (y, m, d)"
  shows "ymd2ord y m d = n \<and> 1 \<le> m \<and> m \<le> 12 \<and> 1 \<le> d \<and> d \<le> days_in_month y m"
proof -
  define n400 where "n400 = (n - 1) div 146097"
  define r1 where "r1 = (n - 1) mod 146097"
  define n100 where "n100 = r1 div 36524"
  define r2 where "r2 = r1 mod 36524"
  define n4 where "n4 = r2 div 1461"
  define r3 where "r3 = r2 mod 1461"
  define n1 where "n1 = r3 div 365"
  define r4 where "r4 = r3 mod 365"
  define yr where "yr = n400 * 400 + 1 + n100 * 100 + n4 * 4 + n1"
  define leapyear where "leapyear = (n1 = 3 \<and> (n4 \<noteq> 24 \<or> n100 = 3))"
  define mon where "mon = (r4 + 50) div 32"
  define preceding where
    "preceding = DAYS_BEFORE_MONTH ! nat mon + (if mon > 2 \<and> leapyear then 1 else 0)"
  define res where
    "res = (if preceding > r4
            then (mon - 1, r4 - (preceding - (DAYS_IN_MONTH ! nat (mon - 1)
                    + (if mon - 1 = 2 \<and> leapyear then 1 else 0))) + 1)
            else (mon, r4 - preceding + 1))"
  have unf0: "ord2ymd n =
      (if n1 = 4 \<or> n100 = 4 then (yr - 1, 12, 31)
       else if preceding > r4
            then (yr, mon - 1, r4 - (preceding - (DAYS_IN_MONTH ! nat (mon - 1)
                    + (if mon - 1 = 2 \<and> leapyear then 1 else 0))) + 1)
            else (yr, mon, r4 - preceding + 1))"
    unfolding ord2ymd_def Let_def DI400Y_def DI100Y_def DI4Y_def
      n400_def r1_def n100_def r2_def n4_def r3_def n1_def r4_def yr_def
      leapyear_def mon_def preceding_def
    by (rule refl)
  have unf: "ord2ymd n = (if n1 = 4 \<or> n100 = 4 then (yr - 1, 12, 31) else (yr, fst res, snd res))"
    unfolding unf0 res_def by simp
  have e1: "n - 1 = n400 * 146097 + r1" and b1: "0 \<le> r1" "r1 < 146097"
    by (simp_all add: n400_def r1_def)
  have e2: "r1 = n100 * 36524 + r2" and b2: "0 \<le> r2" "r2 < 36524"
    by (simp_all add: n100_def r2_def)
  have e3: "r2 = n4 * 1461 + r3" and b3: "0 \<le> r3" "r3 < 1461"
    by (simp_all add: n4_def r3_def)
  have e4: "r3 = n1 * 365 + r4" and b4: "0 \<le> r4" "r4 < 365"
    by (simp_all add: n1_def r4_def)
  have c100: "0 \<le> n100" "n100 \<le> 4" using b1 b2 e2 by linarith+
  have c4: "0 \<le> n4" "n4 \<le> 24" using b2 b3 e3 by linarith+
  have c1: "0 \<le> n1" "n1 \<le> 4" using b3 b4 e4 by linarith+
  show ?thesis
  proof (cases "n100 = 4")
    case True
    with b1 b2 e2 have "r2 = 0" by linarith
    with b3 e3 c4 have "n4 = 0" "r3 = 0" by linarith+
    with b4 e4 c1 have "n1 = 0" "r4 = 0" by linarith+
    have y: "y = n400 * 400 + 1 + 3 * 100 + 24 * 4 + 3" "m = 12" "d = 31"
      using assms unf True \<open>n4 = 0\<close> \<open>n1 = 0\<close> by (simp_all add: yr_def)
    have "days_before_year y = n400 * 146097 + 3 * 36524 + 24 * 1461 + 3 * 365"
      unfolding y by (rule year_part) simp_all
    moreover have "is_leap y"
      unfolding y by (subst leap_part) simp_all
    moreover have "n = n400 * 146097 + 146097"
      using e1 e2 True \<open>r2 = 0\<close> by linarith
    ultimately show ?thesis
      using y by (simp add: ymd2ord_DBM days_in_month_DIM DIM_def DBM_def
            DAYS_IN_MONTH_def DAYS_BEFORE_MONTH_def)
  next
    case n100: False
    with c100 have c100': "n100 \<le> 3" by linarith
    show ?thesis
    proof (cases "n1 = 4")
      case True
      with b3 b4 e4 have "r4 = 0" by linarith
      from True e4 \<open>r4 = 0\<close> have "r3 = 1460" by linarith
      with e3 b2 c4 have c4': "n4 \<le> 23" by linarith
      have y: "y = n400 * 400 + 1 + n100 * 100 + n4 * 4 + 3" "m = 12" "d = 31"
        using assms unf True by (simp_all add: yr_def)
      have "days_before_year y = n400 * 146097 + n100 * 36524 + n4 * 1461 + 3 * 365"
        unfolding y using c100 c100' c4 by (intro year_part) simp_all
      moreover have "is_leap y"
        unfolding y using c100 c100' c4 c4' by (subst leap_part) simp_all
      moreover have "n = n400 * 146097 + n100 * 36524 + n4 * 1461 + 1461"
        using e1 e2 e3 \<open>r3 = 1460\<close> by linarith
      ultimately show ?thesis
        using y by (simp add: ymd2ord_DBM days_in_month_DIM DIM_def DBM_def
              DAYS_IN_MONTH_def DAYS_BEFORE_MONTH_def)
    next
      case False
      with c1 have c1': "n1 \<le> 3" by linarith
      have y: "y = yr" "m = fst res" "d = snd res"
        using assms unf False n100 by simp_all
      have dby: "days_before_year y = n400 * 146097 + n100 * 36524 + n4 * 1461 + n1 * 365"
        unfolding y yr_def using c100 c100' c4 c1 c1' by (intro year_part) simp_all
      have leap: "is_leap y = leapyear"
        unfolding y yr_def leapyear_def using c100 c100' c4 c1 c1' by (intro leap_part) simp_all
      have "r4 < 365 + (if leapyear then 1 else 0)" using b4 by simp
      from month_part [OF b4(1) this]
      have mp: "1 \<le> fst res \<and> fst res \<le> 12 \<and> 1 \<le> snd res \<and> snd res \<le> DIM leapyear (fst res)
                \<and> DBM leapyear (fst res) + snd res = r4 + 1"
        unfolding res_def preceding_def mon_def .
      have "n = n400 * 146097 + n100 * 36524 + n4 * 1461 + n1 * 365 + r4 + 1"
        using e1 e2 e3 e4 by linarith
      with mp dby show ?thesis
        unfolding ymd2ord_DBM days_in_month_DIM leap y(2,3) by linarith
    qed
  qed
qed

lemma of_char_digit_char:
  "0 \<le> k \<Longrightarrow> k \<le> 9 \<Longrightarrow> (of_char (digit_char k) :: int) = 48 + k"
  by (simp add: digit_char_def)

lemma rng_digit_char:
  "0 \<le> k \<Longrightarrow> k \<le> 9 \<Longrightarrow>
   rng lo hi (digit_char k # cs) = (if lo \<le> k \<and> k \<le> hi then [(k, cs)] else [])"
  by (simp add: rng.simps of_char_digit_char)

lemma digit_char_neq:
  assumes "0 \<le> k" "k \<le> 9" "(of_char c :: int) < 48 \<or> 57 < (of_char c :: int)"
  shows "digit_char k \<noteq> c"
proof
  assume "digit_char k = c"
  then have "(of_char c :: int) = of_char (digit_char k)" by simp
  also have "\<dots> = 48 + k" using assms by (simp add: of_char_digit_char)
  finally show False using assms by linarith
qed

lemma lit_digit_char:
  "0 \<le> k \<Longrightarrow> k \<le> 9 \<Longrightarrow> sep cs \<Longrightarrow> lit cs (digit_char k # r) = []"
  using digit_char_neq by (auto simp: sep_def)

lemma sep_literals: "sep ''-''" "sep '':''" "sep ''Tt''" "sep ''Zz''"
  by (simp_all add: sep_def)

lemma pad2_digits:
  fixes n :: int
  assumes "0 \<le> n" "n \<le> 99"
  shows "0 \<le> n div 10" "n div 10 \<le> 9" "0 \<le> n mod 10" "n mod 10 \<le> 9"
  using assms by arith+

lemma re_M_pad2:
  assumes "0 \<le> n" "n \<le> 59"
  shows "re_M (pad2 n @ r) = [(n, r), (n div 10, digit_char (n mod 10) # r)]"
proof -
  have d: "0 \<le> n div 10" "n div 10 \<le> 5" "0 \<le> n mod 10" "n mod 10 \<le> 9"
    using assms by arith+
  then show ?thesis
    by (simp add: re_M_def two_def pad2_def rng_digit_char del: rng.simps)
qed

lemma re_S_pad2:
  assumes "0 \<le> n" "n \<le> 59"
  shows "re_S (pad2 n @ r) = [(n, r), (n div 10, digit_char (n mod 10) # r)]"
proof -
  have d: "0 \<le> n div 10" "n div 10 \<le> 5" "0 \<le> n mod 10" "n mod 10 \<le> 9"
    using assms by arith+
  then show ?thesis
    by (simp add: re_S_def two_def pad2_def rng_digit_char del: rng.simps)
qed

lemma re_H_pad2:
  assumes "0 \<le> n" "n \<le> 23"
  shows "re_H (pad2 n @ r) = [(n, r), (n div 10, digit_char (n mod 10) # r)]"
proof -
  have d: "0 \<le> n div 10" "n div 10 \<le> 2" "0 \<le> n mod 10" "n mod 10 \<le> 9"
    "n div 10 = 2 \<Longrightarrow> n mod 10 \<le> 3"
    using assms by arith+
  then have "n div 10 = 0 \<or> n div 10 = 1 \<or> n div 10 = 2" by arith
  with d show ?thesis
    by (elim disjE) (simp_all add: re_H_def two_def pad2_def rng_digit_char del: rng.simps, arith+)
qed

lemma re_m_pad2:
  assumes "1 \<le> n" "n \<le> 12"
  shows "re_m (pad2 n @ r) =
           (n, r) # (if n div 10 = 0 then [] else [(n div 10, digit_char (n mod 10) # r)])"
proof -
  have d: "0 \<le> n div 10" "n div 10 \<le> 1" "0 \<le> n mod 10" "n mod 10 \<le> 9"
    "n div 10 = 1 \<Longrightarrow> n mod 10 \<le> 2" "n div 10 = 0 \<Longrightarrow> 1 \<le> n mod 10"
    using assms by arith+
  then have "n div 10 = 0 \<or> n div 10 = 1" by arith
  with d show ?thesis
    by (elim disjE) (simp_all add: re_m_def two_def pad2_def rng_digit_char del: rng.simps, arith+)
qed

lemma re_d_pad2:
  assumes "1 \<le> n" "n \<le> 31"
  shows "re_d (pad2 n @ r) =
           (n, r) # (if n div 10 = 0 then [] else [(n div 10, digit_char (n mod 10) # r)])"
proof -
  have d: "0 \<le> n div 10" "n div 10 \<le> 3" "0 \<le> n mod 10" "n mod 10 \<le> 9"
    "n div 10 = 3 \<Longrightarrow> n mod 10 \<le> 1" "n div 10 = 0 \<Longrightarrow> 1 \<le> n mod 10"
    using assms by arith+
  then have "n div 10 = 0 \<or> n div 10 = 1 \<or> n div 10 = 2 \<or> n div 10 = 3" by arith
  moreover have "sep '' ''" by (simp add: sep_def)
  ultimately show ?thesis using d
    by (elim disjE)
       (simp_all add: re_d_def two_def pad2_def rng_digit_char lit_digit_char
          del: rng.simps lit.simps, arith+)
qed

lemma decimal_digit:
  assumes "0 \<le> d" "d \<le> 9"
  shows "decimal (nat d) = [digit_char d]"
proof -
  have "nat d < 10" using assms by linarith
  then show ?thesis using assms by (subst decimal.simps) simp
qed

lemma decimal_step:
  assumes "1 \<le> q" "0 \<le> d" "d \<le> 9"
  shows "decimal (nat (10 * q + d)) = decimal (nat q) @ [digit_char d]"
proof -
  have n: "nat (10 * q + d) = 10 * nat q + nat d"
    using assms by (simp add: nat_add_distrib nat_mult_distrib)
  have "nat d < 10" using assms by linarith
  then have "(10 * nat q + nat d) div 10 = nat q" "(10 * nat q + nat d) mod 10 = nat d"
    by simp_all
  moreover have "\<not> 10 * nat q + nat d < 10" using assms by linarith
  ultimately show ?thesis
    unfolding n using assms by (subst decimal.simps) simp
qed

lemma four_digits:
  fixes y :: int
  assumes "1000 \<le> y" "y \<le> 9999"
  obtains a b c d where "y = 10 * (10 * (10 * a + b) + c) + d"
    "1 \<le> a" "a \<le> 9" "0 \<le> b" "b \<le> 9" "0 \<le> c" "c \<le> 9" "0 \<le> d" "d \<le> 9"
proof -
  define q1 where "q1 = y div 10"
  define d where "d = y mod 10"
  define q2 where "q2 = q1 div 10"
  define c where "c = q1 mod 10"
  define a where "a = q2 div 10"
  define b where "b = q2 mod 10"
  have e1: "y = 10 * q1 + d" and d: "0 \<le> d" "d \<le> 9"
    by (simp_all add: q1_def d_def)
  have e2: "q1 = 10 * q2 + c" and c: "0 \<le> c" "c \<le> 9"
    by (simp_all add: q2_def c_def)
  have e3: "q2 = 10 * a + b" and b: "0 \<le> b" "b \<le> 9"
    by (simp_all add: a_def b_def)
  have "1 \<le> a" "a \<le> 9" using assms e1 e2 e3 b c d by linarith+
  moreover have "y = 10 * (10 * (10 * a + b) + c) + d" using e1 e2 e3 by simp
  ultimately show thesis using that b c d by blast
qed

lemma fmt_year_digits:
  assumes "1 \<le> a" "a \<le> 9" "0 \<le> b" "b \<le> 9" "0 \<le> c" "c \<le> 9" "0 \<le> d" "d \<le> 9"
  shows "fmt_year (10 * (10 * (10 * a + b) + c) + d)
         = [digit_char a, digit_char b, digit_char c, digit_char d]"
proof -
  have "decimal (nat (10 * (10 * (10 * a + b) + c) + d))
        = decimal (nat (10 * (10 * a + b) + c)) @ [digit_char d]"
    by (rule decimal_step) (use assms in auto)
  also have "decimal (nat (10 * (10 * a + b) + c)) = decimal (nat (10 * a + b)) @ [digit_char c]"
    by (rule decimal_step) (use assms in auto)
  also have "decimal (nat (10 * a + b)) = decimal (nat a) @ [digit_char b]"
    by (rule decimal_step) (use assms in auto)
  also have "decimal (nat a) = [digit_char a]"
    by (rule decimal_digit) (use assms in auto)
  finally have "decimal (nat (10 * (10 * (10 * a + b) + c) + d))
        = [digit_char a, digit_char b, digit_char c, digit_char d]" by simp
  moreover have "\<not> 10 * (10 * (10 * a + b) + c) + d < 0" using assms by auto
  ultimately show ?thesis unfolding fmt_year_def by (simp only: if_False)
qed

lemma re_Y_digits:
  assumes "0 \<le> a" "a \<le> 9" "0 \<le> b" "b \<le> 9" "0 \<le> c" "c \<le> 9" "0 \<le> d" "d \<le> 9"
  shows "re_Y (digit_char a # digit_char b # digit_char c # digit_char d # r)
         = [(100 * (10 * a + b) + (10 * c + d), r)]"
  using assms by (simp add: re_Y_def two_def rng_digit_char del: rng.simps)

lemma re_Y_fmt_year:
  assumes "1000 \<le> y" "y \<le> 9999"
  shows "re_Y (fmt_year y @ r) = [(y, r)]"
proof -
  from assms obtain a b c d where y: "y = 10 * (10 * (10 * a + b) + c) + d"
    and dg: "1 \<le> a" "a \<le> 9" "0 \<le> b" "b \<le> 9" "0 \<le> c" "c \<le> 9" "0 \<le> d" "d \<le> 9"
    by (rule four_digits)
  have "0 \<le> a" using dg by linarith
  with dg have "re_Y (digit_char a # digit_char b # digit_char c # digit_char d # r)
         = [(100 * (10 * a + b) + (10 * c + d), r)]"
    by (intro re_Y_digits)
  then show ?thesis
    unfolding y fmt_year_digits [OF dg] by simp
qed

lemma lit_hit:
  "lit ''-'' (CHR ''-'' # r) = [r]" "lit '':'' (CHR '':'' # r) = [r]"
  "lit ''Tt'' (CHR ''T'' # r) = [r]" "lit ''Zz'' (CHR ''Z'' # r) = [r]"
  by simp_all

lemma mod10_bounds: "0 \<le> (n::int) mod 10" "(n::int) mod 10 \<le> 9"
  by arith+

lemma days_in_month_le_31:
  assumes "1 \<le> m" "m \<le> 12"
  shows "days_in_month y m \<le> 31"
proof -
  from assms have "m = 1 \<or> m = 2 \<or> m = 3 \<or> m = 4 \<or> m = 5 \<or> m = 6
    \<or> m = 7 \<or> m = 8 \<or> m = 9 \<or> m = 10 \<or> m = 11 \<or> m = 12"
    by presburger
  then show ?thesis
    by (elim disjE) (simp_all add: days_in_month_def DAYS_IN_MONTH_def)
qed

lemma format_regex_strftime:
  assumes "valid_datetime dt" "1000 \<le> year dt"
  shows "format_regex (strftime dt) = [(dt, [])]"
proof -
  from assms have y: "1000 \<le> year dt" "year dt \<le> 9999"
    and m: "1 \<le> month dt" "month dt \<le> 12"
    and d: "1 \<le> day dt" "day dt \<le> days_in_month (year dt) (month dt)"
    and H: "0 \<le> hour dt" "hour dt \<le> 23"
    and M: "0 \<le> minute dt" "minute dt \<le> 59"
    and S: "0 \<le> second dt" "second dt \<le> 59"
    by (simp_all add: valid_datetime_def)
  from d days_in_month_le_31 [OF m, of "year dt"] have d': "day dt \<le> 31" by linarith
  show ?thesis
    unfolding format_regex_def strftime_def
    using y m d(1) d' H M S
    by (simp add: re_Y_fmt_year re_m_pad2 re_d_pad2 re_H_pad2 re_M_pad2 re_S_pad2
          lit_hit lit_digit_char sep_literals mod10_bounds del: lit.simps)
qed

lemma strptime_strftime:
  assumes "valid_datetime dt" "1000 \<le> year dt"
  shows "strptime (strftime dt) = Some dt"
  using assms by (simp add: strptime_def format_regex_strftime)

lemma hms_split:
  fixes r :: int
  shows "r div 3600 * 3600 + r mod 3600 div 60 * 60 + r mod 60 = r"
proof -
  have "r mod 60 = r mod 3600 mod 60" by (simp add: mod_mod_cancel)
  then have "r mod 3600 div 60 * 60 + r mod 60 = r mod 3600" by simp
  moreover have "r div 3600 * 3600 + r mod 3600 = r" by simp
  ultimately show ?thesis by linarith
qed

lemma gmtime_fields:
  assumes "ord2ymd (t div 86400 + EPOCH_ORD) = (y, m, d)"
  shows "gmtime t = \<lparr>year = y, month = m, day = d, hour = t mod 86400 div 3600,
                     minute = t mod 86400 mod 3600 div 60, second = t mod 86400 mod 60\<rparr>"
  using assms by (simp add: gmtime_def Let_def)

lemma timestamp_gmtime: "timestamp (gmtime t) = t"
proof -
  obtain y m d where o: "ord2ymd (t div 86400 + EPOCH_ORD) = (y, m, d)"
    by (metis prod_cases3)
  from ord2ymd_inverse [OF o] have "ymd2ord y m d = t div 86400 + EPOCH_ORD" by simp
  then have "timestamp (gmtime t)
     = t div 86400 * 86400 + (t mod 86400 div 3600 * 3600
         + t mod 86400 mod 3600 div 60 * 60 + t mod 86400 mod 60)"
    by (simp add: gmtime_fields [OF o] timestamp_def)
  also have "\<dots> = t div 86400 * 86400 + t mod 86400" by (simp only: hms_split)
  also have "\<dots> = t" by simp
  finally show ?thesis .
qed

lemma days_before_year_lower:
  assumes "10000 \<le> y"
  shows "3652059 \<le> days_before_year y"
proof -
  define x where "x = y - 1"
  define a where "a = x div 4"
  define b where "b = x div 100"
  define c where "c = x div 400"
  have "x - 3 \<le> 4 * a" "100 * b \<le> x" "x - 399 \<le> 400 * c"
    unfolding a_def b_def c_def by arith+
  moreover have "9999 \<le> x" using assms by (simp add: x_def)
  moreover have "days_before_year y = x * 365 + a - b + c"
    by (simp add: days_before_year_def Let_def x_def a_def b_def c_def)
  ultimately show ?thesis by linarith
qed

lemma days_before_year_upper:
  assumes "y \<le> 1968"
  shows "days_before_year y \<le> 718433"
proof -
  define x where "x = y - 1"
  define a where "a = x div 4"
  define b where "b = x div 100"
  define c where "c = x div 400"
  have "4 * a \<le> x" "x - 99 \<le> 100 * b" "400 * c \<le> x"
    unfolding a_def b_def c_def by arith+
  moreover have "x \<le> 1967" using assms by (simp add: x_def)
  moreover have "days_before_year y = x * 365 + a - b + c"
    by (simp add: days_before_year_def Let_def x_def a_def b_def c_def)
  ultimately show ?thesis by linarith
qed

lemma days_before_month_bounds:
  assumes "1 \<le> m" "m \<le> 12"
  shows "0 \<le> days_before_month y m" "days_before_month y m \<le> 335"
proof -
  from assms have "m = 1 \<or> m = 2 \<or> m = 3 \<or> m = 4 \<or> m = 5 \<or> m = 6
    \<or> m = 7 \<or> m = 8 \<or> m = 9 \<or> m = 10 \<or> m = 11 \<or> m = 12"
    by presburger
  then show "0 \<le> days_before_month y m" "days_before_month y m \<le> 335"
    by (elim disjE; simp add: days_before_month_def DAYS_BEFORE_MONTH_def)+
qed

lemma gmtime_valid:
  assumes "0 \<le> t" "t < 253402300800"
  shows "valid_datetime (gmtime t)" "1969 \<le> year (gmtime t)"
proof -
  obtain y m d where o: "ord2ymd (t div 86400 + EPOCH_ORD) = (y, m, d)"
    by (metis prod_cases3)
  define n where "n = t div 86400"
  have n: "0 \<le> n" "n \<le> 2932896" using assms unfolding n_def by arith+
  from ord2ymd_inverse [OF o]
  have inv: "ymd2ord y m d = n + 719163" and m: "1 \<le> m" "m \<le> 12"
    and d: "1 \<le> d" "d \<le> days_in_month y m"
    by (simp_all add: n_def EPOCH_ORD_def)
  have d31: "d \<le> 31" using d days_in_month_le_31 [OF m, of y] by linarith
  have dby: "days_before_year y + days_before_month y m + d = n + 719163"
    using inv by (simp add: ymd2ord_def)
  have hi: "y \<le> 9999"
  proof (rule ccontr)
    assume "\<not> y \<le> 9999"
    then have "3652059 \<le> days_before_year y" by (intro days_before_year_lower) simp
    with dby days_before_month_bounds [OF m, of y] d n show False by linarith
  qed
  have lo: "1969 \<le> y"
  proof (rule ccontr)
    assume "\<not> 1969 \<le> y"
    then have "days_before_year y \<le> 718433" by (intro days_before_year_upper) simp
    with dby days_before_month_bounds [OF m, of y] d31 n show False by linarith
  qed
  have r: "0 \<le> t mod 86400" "t mod 86400 < 86400" by simp_all
  have H: "0 \<le> t mod 86400 div 3600" "t mod 86400 div 3600 \<le> 23" using r by arith+
  have M: "0 \<le> t mod 86400 mod 3600 div 60" "t mod 86400 mod 3600 div 60 \<le> 59" by arith+
  have S: "0 \<le> t mod 86400 mod 60" "t mod 86400 mod 60 \<le> 59" by arith+
  show "valid_datetime (gmtime t)"
    using lo hi m d H M S by (simp add: gmtime_fields [OF o] valid_datetime_def)
  show "1969 \<le> year (gmtime t)"
    using lo by (simp add: gmtime_fields [OF o])
qed

section \<open>Properties of the import adapter\<close>

lemma adapt_cookie_unfold:
  "adapt_cookie c =
     (let ss = same_site_value (dict_get c ''SameSite'' PNone)
      in if \<not> hashable ss then Inl TypeError
         else case iso_to_epoch (dict_get c ''Expires'' PNone) of
                Inl e \<Rightarrow> Inl e
              | Inr e \<Rightarrow>
                  Inr (base_fields c
                       @ (if ss \<in> {PStr ''Lax'', PStr ''Strict'', PStr ''None''}
                          then [(''sameSite'', ss)] else [])
                       @ (if 0 < e then [(''expires'', PInt e)] else [])))"
proof (cases "as_int (dict_get c ''SameSite'' PNone)")
  case None
  then show ?thesis
    unfolding adapt_cookie_def Let_def base_fields_def same_site_value_def
    by (simp add: dict_get_def AList.delete_eq split: sum.splits)
next
  case (Some n)
  then show ?thesis
    unfolding adapt_cookie_def Let_def base_fields_def same_site_value_def same_site_label_def
    by (simp add: dict_get_def AList.delete_eq split: sum.splits)
qed

lemma base_fields_keys:
  "map_of (base_fields c) ''sameSite'' = None" "map_of (base_fields c) ''expires'' = None"
  by (simp_all add: base_fields_def)

lemma hashable_same_site_value: "hashable (same_site_value v) = hashable v"
  by (cases v) (simp_all add: same_site_value_def)

lemma format_regex_Nil: "format_regex [] = []"
  by (simp add: format_regex_def re_Y_def two_def rng.simps)

lemma strptime_Nil: "strptime [] = None"
  by (simp add: strptime_def format_regex_Nil)

lemma iso_to_epoch_falsy: "\<not> truthy ts \<Longrightarrow> iso_to_epoch ts = Inr 0"
  by (simp add: iso_to_epoch_def)

lemma iso_to_epoch_str:
  "iso_to_epoch (PStr s) = Inr (case strptime s of Some dt \<Rightarrow> timestamp dt | None \<Rightarrow> 0)"
  by (cases "s = []") (simp_all add: iso_to_epoch_def strptime_Nil split: option.splits)

lemma iso_to_epoch_error: "iso_to_epoch ts = Inl err \<Longrightarrow> err = TypeError"
  by (cases ts) (simp_all add: iso_to_epoch_def split: if_splits option.splits)

lemma adapt_cookie_expires_key:
  assumes "adapt_cookie c = Inr r"
  shows "\<exists>e. iso_to_epoch (dict_get c ''Expires'' PNone) = Inr e
             \<and> map_of r ''expires'' = (if 0 < e then Some (PInt e) else None)"
proof (cases "iso_to_epoch (dict_get c ''Expires'' PNone)")
  case (Inl err)
  with assms show ?thesis
    by (simp add: adapt_cookie_unfold Let_def split: if_splits)
next
  case (Inr e)
  define ss where "ss = same_site_value (dict_get c ''SameSite'' PNone)"
  from assms Inr have "r = base_fields c
        @ (if ss \<in> {PStr ''Lax'', PStr ''Strict'', PStr ''None''}
           then [(''sameSite'', ss)] else [])
        @ (if 0 < e then [(''expires'', PInt e)] else [])"
    unfolding adapt_cookie_unfold Let_def ss_def [symmetric]
    by (auto split: if_splits)
  then have "map_of r ''expires'' = (if 0 < e then Some (PInt e) else None)"
    by (simp add: map_add_def base_fields_keys)
  with Inr show ?thesis by simp
qed

lemma adapt_cookie_same_site_key:
  assumes "adapt_cookie c = Inr r"
  shows "map_of r ''sameSite'' =
           (let ss = same_site_value (dict_get c ''SameSite'' PNone)
            in if ss \<in> {PStr ''Lax'', PStr ''Strict'', PStr ''None''} then Some ss else None)"
proof (cases "iso_to_epoch (dict_get c ''Expires'' PNone)")
  case (Inl err)
  with assms show ?thesis
    by (simp add: adapt_cookie_unfold Let_def split: if_splits)
next
  case (Inr e)
  define ss where "ss = same_site_value (dict_get c ''SameSite'' PNone)"
  from assms Inr have "r = base_fields c
        @ (if ss \<in> {PStr ''Lax'', PStr ''Strict'', PStr ''None''}
           then [(''sameSite'', ss)] else [])
        @ (if 0 < e then [(''expires'', PInt e)] else [])"
    unfolding adapt_cookie_unfold Let_def ss_def [symmetric]
    by (auto split: if_splits)
  then show ?thesis
    unfolding Let_def ss_def [symmetric]
    by (simp add: map_add_def base_fields_keys)
qed

lemma adapt_cookie_returns:
  assumes "hashable (dict_get c ''SameSite'' PNone)"
    and "iso_to_epoch (dict_get c ''Expires'' PNone) = Inr e"
  shows "\<exists>r. adapt_cookie c = Inr r"
  using assms by (simp add: adapt_cookie_unfold Let_def hashable_same_site_value)

lemma adapt_cookie_error:
  assumes "adapt_cookie c = Inl err"
  shows "err = TypeError"
  using assms iso_to_epoch_error
  by (auto simp: adapt_cookie_unfold Let_def split: if_splits sum.splits)

lemmas strptime_eval =
  strptime_def format_regex_def re_Y_def re_m_def re_d_def re_H_def re_M_def re_S_def two_def
  rng.simps valid_datetime_def days_in_month_def DAYS_IN_MONTH_def is_leap_def

lemmas timestamp_eval =
  timestamp_def ymd2ord_def days_before_year_def days_before_month_def DAYS_BEFORE_MONTH_def
  EPOCH_ORD_def is_leap_def


lemma strptime_2024:
  "strptime ''2024-01-01T00:00:00Z''
     = Some \<lparr>year = 2024, month = 1, day = 1, hour = 0, minute = 0, second = 0\<rparr>"
  by (simp add: strptime_eval)

lemma strptime_garbage: "strptime ''tomorrow'' = None"
  by (simp add: strptime_eval)


lemma timestamp_2024:
  "timestamp \<lparr>year = 2024, month = 1, day = 1, hour = 0, minute = 0, second = 0\<rparr> = 1704067200"
  by (simp add: timestamp_eval)

text \<open>
  C4. \<^verbatim>\<open>adapt_cookie({"Name":"ct0","Value":"abc","SameSite":2})\<close> returns exactly the
  dict with name ct0, value abc, domain .x.com, path /, secure true, httpOnly false
  and sameSite None, and the result has no expires key.
\<close>

theorem adapt_cookie_ct0_scenario:
  "adapt_cookie [(''Name'', PStr ''ct0''), (''Value'', PStr ''abc''), (''SameSite'', PInt 2)]
     = Inr [(''name'', PStr ''ct0''), (''value'', PStr ''abc''), (''domain'', PStr ''.x.com''),
            (''path'', PStr ''/''), (''secure'', PBool True), (''httpOnly'', PBool False),
            (''sameSite'', PStr ''None'')]
   \<and> (case adapt_cookie [(''Name'', PStr ''ct0''), (''Value'', PStr ''abc''),
                          (''SameSite'', PInt 2)] of
        Inr r \<Rightarrow> \<not> has_key r ''expires'' | Inl e \<Rightarrow> False)"
  by (simp add: adapt_cookie_def dict_get_def py_or_def same_site_map_def iso_to_epoch_def
        AList.delete_eq has_key_def)

text \<open>
  C1, as stated: an entry with \<^verbatim>\<open>SameSite=5\<close> would give a cookie with no sameSite
  key. It does not: 5 is an integer, the lookup in \<^verbatim>\<open>same_site_map\<close> falls back to
  Lax, and Lax is a valid label, so the key stays.
\<close>

theorem adapt_cookie_same_site_5_counterexample:
  "adapt_cookie [(''Name'', PStr ''ct0''), (''Value'', PStr ''abc''), (''SameSite'', PInt 5)]
     = Inr [(''name'', PStr ''ct0''), (''value'', PStr ''abc''), (''domain'', PStr ''.x.com''),
            (''path'', PStr ''/''), (''secure'', PBool True), (''httpOnly'', PBool False),
            (''sameSite'', PStr ''Lax'')]
   \<and> has_key [(''name'', PStr ''ct0''), (''value'', PStr ''abc''), (''domain'', PStr ''.x.com''),
            (''path'', PStr ''/''), (''secure'', PBool True), (''httpOnly'', PBool False),
            (''sameSite'', PStr ''Lax'')] ''sameSite''"
  by (simp add: adapt_cookie_def dict_get_def py_or_def same_site_map_def iso_to_epoch_def
        AList.delete_eq has_key_def)

text \<open>
  C1, amended: for an entry whose SameSite is the integer 5, or any integer other than
  0, 1 and 2, the cookie that \<^verbatim>\<open>adapt_cookie\<close> returns has the sameSite key, with the
  value Lax; the only way not to return is the TypeError of an Expires value that is
  truthy and not a string. For every entry, the returned cookie lacks the sameSite key
  exactly when the source value is neither an integer (\<^verbatim>\<open>isinstance(v, int)\<close>, which a
  boolean passes) nor one of the three labels.
\<close>

theorem adapt_cookie_unmapped_int_is_lax:
  "(dict_get c ''SameSite'' PNone = PInt n \<and> n \<notin> {0, 1, 2} \<longrightarrow>
      (case adapt_cookie c of
         Inr r \<Rightarrow> map_of r ''sameSite'' = Some (PStr ''Lax'')
       | Inl e \<Rightarrow> e = TypeError \<and> iso_to_epoch (dict_get c ''Expires'' PNone) = Inl TypeError))
   \<and> (\<forall>r. adapt_cookie c = Inr r \<longrightarrow>
        (map_of r ''sameSite'' = None)
          = (as_int (dict_get c ''SameSite'' PNone) = None
             \<and> dict_get c ''SameSite'' PNone \<notin> {PStr ''Lax'', PStr ''Strict'', PStr ''None''}))"
proof (intro conjI allI impI)
  assume a: "dict_get c ''SameSite'' PNone = PInt n \<and> n \<notin> {0, 1, 2}"
  show "case adapt_cookie c of
          Inr r \<Rightarrow> map_of r ''sameSite'' = Some (PStr ''Lax'')
        | Inl e \<Rightarrow> e = TypeError \<and> iso_to_epoch (dict_get c ''Expires'' PNone) = Inl TypeError"
  proof (cases "adapt_cookie c")
    case (Inr r)
    have "same_site_value (PInt n) = PStr ''Lax''"
      using a by (simp add: same_site_value_def same_site_label_def same_site_map_def)
    with adapt_cookie_same_site_key [OF Inr] a Inr show ?thesis
      by (simp add: Let_def)
  next
    case (Inl e)
    have "hashable (dict_get c ''SameSite'' PNone)" using a by simp
    with Inl have "iso_to_epoch (dict_get c ''Expires'' PNone) = Inl TypeError"
      using adapt_cookie_returns [of c] iso_to_epoch_error [of "dict_get c ''Expires'' PNone"]
      by (cases "iso_to_epoch (dict_get c ''Expires'' PNone)") auto
    with Inl adapt_cookie_error [OF Inl] show ?thesis by simp
  qed
next
  fix r assume r: "adapt_cookie c = Inr r"
  define v where "v = dict_get c ''SameSite'' PNone"
  have l: "same_site_label k \<in> {''Lax'', ''Strict'', ''None''}" for k
    by (simp add: same_site_label_def same_site_map_def)
  have "(same_site_value v \<in> {PStr ''Lax'', PStr ''Strict'', PStr ''None''})
        = (as_int v \<noteq> None \<or> v \<in> {PStr ''Lax'', PStr ''Strict'', PStr ''None''})"
  proof (cases "as_int v")
    case None
    then show ?thesis by (simp add: same_site_value_def)
  next
    case (Some k)
    with l [of k] show ?thesis by (auto simp: same_site_value_def)
  qed
  with adapt_cookie_same_site_key [OF r]
  show "(map_of r ''sameSite'' = None)
          = (as_int (dict_get c ''SameSite'' PNone) = None
             \<and> dict_get c ''SameSite'' PNone \<notin> {PStr ''Lax'', PStr ''Strict'', PStr ''None''})"
    unfolding v_def [symmetric] Let_def by auto
qed

text \<open>
  The amended C1 at \<^verbatim>\<open>{"Name":"ct0","SameSite":5}\<close>, where the key is Lax, at
  \<^verbatim>\<open>{"Name":"ct0","SameSite":1}\<close>, where the key is kept, and at
  \<^verbatim>\<open>{"Name":"ct0","SameSite":"lax"}\<close>, where the key is left out.
\<close>

theorem adapt_cookie_unmapped_int_is_lax_witness:
  "dict_get [(''Name'', PStr ''ct0''), (''SameSite'', PInt 5)] ''SameSite'' PNone = PInt 5
   \<and> (5::int) \<notin> {0, 1, 2}
   \<and> (\<exists>r. adapt_cookie [(''Name'', PStr ''ct0''), (''SameSite'', PInt 5)] = Inr r
           \<and> map_of r ''sameSite'' = Some (PStr ''Lax''))
   \<and> (\<exists>r. adapt_cookie [(''Name'', PStr ''ct0''), (''SameSite'', PInt 1)] = Inr r
           \<and> map_of r ''sameSite'' \<noteq> None)
   \<and> (\<exists>r. adapt_cookie [(''Name'', PStr ''ct0''), (''SameSite'', PStr ''lax'')] = Inr r
           \<and> map_of r ''sameSite'' = None)"
proof -
  let ?c = "[(''Name'', PStr ''ct0''), (''SameSite'', PInt 5)]"
  let ?d = "[(''Name'', PStr ''ct0''), (''SameSite'', PInt 1)]"
  let ?e = "[(''Name'', PStr ''ct0''), (''SameSite'', PStr ''lax'')]"
  have a: "dict_get ?c ''SameSite'' PNone = PInt 5" by (simp add: dict_get_def)
  have b: "(5::int) \<notin> {0, 1, 2}" by simp
  have "iso_to_epoch (dict_get ?c ''Expires'' PNone) = Inr 0"
    by (simp add: dict_get_def iso_to_epoch_def)
  with adapt_cookie_unmapped_int_is_lax [of ?c 5] a b
  have 1: "\<exists>r. adapt_cookie ?c = Inr r \<and> map_of r ''sameSite'' = Some (PStr ''Lax'')"
    by (cases "adapt_cookie ?c") simp_all
  have "\<exists>r. adapt_cookie ?d = Inr r"
    by (rule adapt_cookie_returns [where e = 0]) (simp_all add: dict_get_def iso_to_epoch_def)
  then obtain r where r: "adapt_cookie ?d = Inr r" ..
  from adapt_cookie_unmapped_int_is_lax [of ?d 1] r have "map_of r ''sameSite'' \<noteq> None"
    by (simp add: dict_get_def)
  with r have 2: "\<exists>r. adapt_cookie ?d = Inr r \<and> map_of r ''sameSite'' \<noteq> None" by blast
  have "\<exists>r. adapt_cookie ?e = Inr r"
    by (rule adapt_cookie_returns [where e = 0]) (simp_all add: dict_get_def iso_to_epoch_def)
  then obtain r' where r': "adapt_cookie ?e = Inr r'" ..
  from adapt_cookie_unmapped_int_is_lax [of ?e 1] r' have "map_of r' ''sameSite'' = None"
    by (simp add: dict_get_def)
  with r' have 3: "\<exists>r. adapt_cookie ?e = Inr r \<and> map_of r ''sameSite'' = None" by blast
  from a b 1 2 3 show ?thesis by blast
qed

text \<open>
  C6. For every entry on which the sameSite test does not raise: when Expires is
  missing, null or empty (or falsy in any other way) the cookie is returned without
  an expires key; so it is when Expires is a string that strptime rejects; when
  Expires is a string that strptime accepts, expires is the epoch second of the parsed
  date-time, left out when that is not positive; and an expires key that is present
  always holds a positive integer, never zero.
\<close>

theorem adapt_cookie_expires_field:
  assumes "hashable (dict_get c ''SameSite'' PNone)"
  shows "(\<not> truthy (dict_get c ''Expires'' PNone) \<longrightarrow>
            (\<exists>r. adapt_cookie c = Inr r \<and> map_of r ''expires'' = None))
       \<and> (\<forall>s. dict_get c ''Expires'' PNone = PStr s \<longrightarrow> strptime s = None \<longrightarrow>
            (\<exists>r. adapt_cookie c = Inr r \<and> map_of r ''expires'' = None))
       \<and> (\<forall>s dt. dict_get c ''Expires'' PNone = PStr s \<longrightarrow> strptime s = Some dt \<longrightarrow>
            (\<exists>r. adapt_cookie c = Inr r
                 \<and> map_of r ''expires''
                     = (if 0 < timestamp dt then Some (PInt (timestamp dt)) else None)))
       \<and> (\<forall>r v. adapt_cookie c = Inr r \<longrightarrow> map_of r ''expires'' = Some v \<longrightarrow>
            (\<exists>e. v = PInt e \<and> 0 < e))"
proof (intro conjI allI impI)
  assume f: "\<not> truthy (dict_get c ''Expires'' PNone)"
  then have e: "iso_to_epoch (dict_get c ''Expires'' PNone) = Inr 0"
    by (rule iso_to_epoch_falsy)
  from adapt_cookie_returns [OF assms e] obtain r where r: "adapt_cookie c = Inr r" ..
  from adapt_cookie_expires_key [OF r] e have "map_of r ''expires'' = None" by simp
  with r show "\<exists>r. adapt_cookie c = Inr r \<and> map_of r ''expires'' = None" by blast
next
  fix s assume s: "dict_get c ''Expires'' PNone = PStr s" and p: "strptime s = None"
  then have e: "iso_to_epoch (dict_get c ''Expires'' PNone) = Inr 0"
    by (simp add: iso_to_epoch_str)
  from adapt_cookie_returns [OF assms e] obtain r where r: "adapt_cookie c = Inr r" ..
  from adapt_cookie_expires_key [OF r] e have "map_of r ''expires'' = None" by simp
  with r show "\<exists>r. adapt_cookie c = Inr r \<and> map_of r ''expires'' = None" by blast
next
  fix s dt assume s: "dict_get c ''Expires'' PNone = PStr s" and p: "strptime s = Some dt"
  then have e: "iso_to_epoch (dict_get c ''Expires'' PNone) = Inr (timestamp dt)"
    by (simp add: iso_to_epoch_str)
  from adapt_cookie_returns [OF assms e] obtain r where r: "adapt_cookie c = Inr r" ..
  from adapt_cookie_expires_key [OF r] e
  have "map_of r ''expires'' = (if 0 < timestamp dt then Some (PInt (timestamp dt)) else None)"
    by simp
  with r show "\<exists>r. adapt_cookie c = Inr r
          \<and> map_of r ''expires'' = (if 0 < timestamp dt then Some (PInt (timestamp dt)) else None)"
    by blast
next
  fix r v assume r: "adapt_cookie c = Inr r" and v: "map_of r ''expires'' = Some v"
  from adapt_cookie_expires_key [OF r] v show "\<exists>e. v = PInt e \<and> 0 < e"
    by (auto split: if_splits)
qed



text \<open>
  C6 at an entry whose Expires is \<^verbatim>\<open>2024-01-01T00:00:00Z\<close> (epoch 1704067200) and at
  one whose Expires is empty.
\<close>

theorem adapt_cookie_expires_field_witness:
  "hashable (dict_get [(''Name'', PStr ''ct0''), (''Expires'', PStr ''2024-01-01T00:00:00Z'')]
               ''SameSite'' PNone)
   \<and> strptime ''2024-01-01T00:00:00Z''
       = Some \<lparr>year = 2024, month = 1, day = 1, hour = 0, minute = 0, second = 0\<rparr>
   \<and> (\<exists>r. adapt_cookie [(''Name'', PStr ''ct0''), (''Expires'', PStr ''2024-01-01T00:00:00Z'')]
             = Inr r
           \<and> map_of r ''expires'' = Some (PInt 1704067200))
   \<and> \<not> truthy (dict_get [(''Name'', PStr ''ct0''), (''Expires'', PStr [])] ''Expires'' PNone)
   \<and> (\<exists>r. adapt_cookie [(''Name'', PStr ''ct0''), (''Expires'', PStr [])] = Inr r
           \<and> map_of r ''expires'' = None)"
proof -
  let ?c = "[(''Name'', PStr ''ct0''), (''Expires'', PStr ''2024-01-01T00:00:00Z'')]"
  let ?d = "[(''Name'', PStr ''ct0''), (''Expires'', PStr [])]"
  have h: "hashable (dict_get ?c ''SameSite'' PNone)" by (simp add: dict_get_def)
  have h': "hashable (dict_get ?d ''SameSite'' PNone)" by (simp add: dict_get_def)
  have s: "dict_get ?c ''Expires'' PNone = PStr ''2024-01-01T00:00:00Z''"
    by (simp add: dict_get_def)
  have f: "\<not> truthy (dict_get ?d ''Expires'' PNone)" by (simp add: dict_get_def)
  from adapt_cookie_expires_field [OF h] s strptime_2024
  have 1: "\<exists>r. adapt_cookie ?c = Inr r \<and> map_of r ''expires'' = Some (PInt 1704067200)"
    by (simp add: timestamp_2024)
  from adapt_cookie_expires_field [OF h'] f
  have 2: "\<exists>r. adapt_cookie ?d = Inr r \<and> map_of r ''expires'' = None"
    by blast
  from h strptime_2024 1 f 2 show ?thesis by blast
qed

section \<open>Properties of the export adapter and the round trip\<close>

lemma build_cookie_payload_map:
  "build_cookie_payload clk cv =
     map (\<lambda>name. create_cookie_template name
                    (case map_of cv name of None \<Rightarrow> [] | Some v \<Rightarrow> v)
                    (strftime (gmtime (synth_seconds clk name))))
         COOKIE_NAMES"
  by (simp add: build_cookie_payload_def Let_def synth_seconds_def get_future_date_def
        COOKIE_NAMES_def)

lemma template_fields:
  "dict_get (create_cookie_template n v e) ''Name'' d = PStr n"
  "dict_get (create_cookie_template n v e) ''Value'' d = PStr (filter (\<lambda>c. c \<noteq> dquote) v)"
  "dict_get (create_cookie_template n v e) ''Path'' d = PStr []"
  "dict_get (create_cookie_template n v e) ''Domain'' d = PStr ''twitter.com''"
  "dict_get (create_cookie_template n v e) ''Expires'' d = PStr e"
  "dict_get (create_cookie_template n v e) ''RawExpires'' d = PStr []"
  "dict_get (create_cookie_template n v e) ''MaxAge'' d = PInt 0"
  "dict_get (create_cookie_template n v e) ''Secure'' d = PBool False"
  "dict_get (create_cookie_template n v e) ''HttpOnly'' d = PBool False"
  "dict_get (create_cookie_template n v e) ''SameSite'' d = PInt 0"
  "dict_get (create_cookie_template n v e) ''Raw'' d = PStr []"
  "dict_get (create_cookie_template n v e) ''Unparsed'' d = PNone"
  by (simp_all add: create_cookie_template_def dict_get_def)

lemma template_keys:
  "map fst (create_cookie_template n v e) =
     [''Name'', ''Value'', ''Path'', ''Domain'', ''Expires'', ''RawExpires'', ''MaxAge'',
      ''Secure'', ''HttpOnly'', ''SameSite'', ''Raw'', ''Unparsed'']"
  by (simp add: create_cookie_template_def)

text \<open>
  C5. For every name-to-value mapping and every clock, the export adapter produces six
  entries whose names are those of \<^verbatim>\<open>COOKIE_NAMES\<close> in its order (personalization\_id,
  kdt, twid, ct0, auth\_token, att); each Value is the mapped value (the empty string
  for a missing name) with its double quotes removed, so no Value contains one.
\<close>

theorem build_cookie_payload_names_values:
  "map (\<lambda>e. dict_get e ''Name'' PNone) (build_cookie_payload clk cv) = map PStr COOKIE_NAMES
   \<and> map PStr COOKIE_NAMES
       = [PStr ''personalization_id'', PStr ''kdt'', PStr ''twid'', PStr ''ct0'',
          PStr ''auth_token'', PStr ''att'']
   \<and> length (build_cookie_payload clk cv) = 6
   \<and> map (\<lambda>e. dict_get e ''Value'' PNone) (build_cookie_payload clk cv)
       = map (\<lambda>name. PStr (filter (\<lambda>c. c \<noteq> dquote)
                               (case map_of cv name of None \<Rightarrow> [] | Some v \<Rightarrow> v)))
             COOKIE_NAMES
   \<and> list_all (\<lambda>e. case dict_get e ''Value'' PNone of
                       PStr v \<Rightarrow> dquote \<notin> set v | _ \<Rightarrow> False)
        (build_cookie_payload clk cv)"
  by (simp add: build_cookie_payload_map template_fields list_all_iff comp_def)
     (simp add: COOKIE_NAMES_def)

text \<open>C5 on a mapping whose ct0 value has a double quote inside.\<close>

theorem build_cookie_payload_names_values_witness:
  "map (\<lambda>e. dict_get e ''Name'' PNone)
       (build_cookie_payload (clock incomplete_world)
          [(''ct0'', [CHR ''a'', dquote, CHR ''b'']), (''twid'', ''u1'')])
     = [PStr ''personalization_id'', PStr ''kdt'', PStr ''twid'', PStr ''ct0'',
        PStr ''auth_token'', PStr ''att'']
   \<and> map (\<lambda>e. dict_get e ''Value'' PNone)
       (build_cookie_payload (clock incomplete_world)
          [(''ct0'', [CHR ''a'', dquote, CHR ''b'']), (''twid'', ''u1'')])
     = [PStr [], PStr [], PStr ''u1'', PStr ''ab'', PStr [], PStr []]"
  using build_cookie_payload_names_values
          [of "clock incomplete_world"
              "[(''ct0'', [CHR ''a'', dquote, CHR ''b'']), (''twid'', ''u1'')]"]
  by (simp add: COOKIE_NAMES_def dquote_def)

text \<open>
  C8. Every entry of the export adapter has the twelve keys of the template and the
  same constants: Domain twitter.com, Path empty, Secure and HttpOnly false, SameSite
  and MaxAge 0, RawExpires and Raw empty, Unparsed null. Only Name, Value and Expires
  are left to vary.
\<close>

theorem build_cookie_payload_constant_fields:
  "list_all (\<lambda>e. dict_get e ''Domain'' PNone = PStr ''twitter.com''
                \<and> dict_get e ''Path'' PNone = PStr []
                \<and> dict_get e ''Secure'' PNone = PBool False
                \<and> dict_get e ''HttpOnly'' PNone = PBool False
                \<and> dict_get e ''SameSite'' PNone = PInt 0
                \<and> dict_get e ''MaxAge'' PNone = PInt 0
                \<and> dict_get e ''RawExpires'' PNone = PStr []
                \<and> dict_get e ''Raw'' PNone = PStr []
                \<and> map_of e ''Unparsed'' = Some PNone
                \<and> map fst e = [''Name'', ''Value'', ''Path'', ''Domain'', ''Expires'',
                     ''RawExpires'', ''MaxAge'', ''Secure'', ''HttpOnly'', ''SameSite'',
                     ''Raw'', ''Unparsed''])
      (build_cookie_payload clk cv)
   \<and> length (build_cookie_payload clk cv) = length COOKIE_NAMES"
  by (simp add: build_cookie_payload_map template_fields template_keys list_all_iff)
     (simp add: create_cookie_template_def)

lemma future_seconds_bounds:
  assumes "0 \<le> now" "now < 253399705200" "0 \<le> jitter" "jitter \<le> 3600"
    and "days = 7 \<or> days = 30"
  shows "0 < future_seconds now jitter days" "future_seconds now jitter days < 253402300800"
proof -
  have d: "0 < days" "days \<le> 30" using assms(5) by auto
  then have r: "(0::real) < of_int (days * 24 * 3600)" "of_int (days * 24 * 3600) \<le> (2592000::real)"
    by simp_all
  have "(1::real) \<le> now + of_int (days * 24 * 3600) + jitter"
  proof -
    have "(1::int) \<le> days * 24 * 3600" using d by simp
    then have "(1::real) \<le> of_int (days * 24 * 3600)" by linarith
    with assms show ?thesis by linarith
  qed
  then have "1 \<le> future_seconds now jitter days"
    unfolding future_seconds_def by (simp add: le_floor_iff)
  then show "0 < future_seconds now jitter days" by linarith
  have "now + of_int (days * 24 * 3600) + jitter < 253402300800"
    using assms r by linarith
  then show "future_seconds now jitter days < 253402300800"
    unfolding future_seconds_def by (simp add: floor_less_iff)
qed

lemma iso_to_epoch_strftime:
  assumes "0 \<le> t" "t < 253402300800"
  shows "iso_to_epoch (PStr (strftime (gmtime t))) = Inr t"
proof -
  from gmtime_valid [OF assms] have "valid_datetime (gmtime t)" "1000 \<le> year (gmtime t)"
    by simp_all
  then have "strptime (strftime (gmtime t)) = Some (gmtime t)" by (rule strptime_strftime)
  then show ?thesis by (simp add: iso_to_epoch_str timestamp_gmtime)
qed

lemma adapt_cookie_template:
  assumes "0 < t" "t < 253402300800"
  shows "adapt_cookie (create_cookie_template name v (strftime (gmtime t)))
         = Inr [(''name'', PStr name), (''value'', PStr (filter (\<lambda>c. c \<noteq> dquote) v)),
                (''domain'', PStr ''twitter.com''), (''path'', PStr ''/''),
                (''secure'', PBool False), (''httpOnly'', PBool False),
                (''sameSite'', PStr ''Lax''), (''expires'', PInt t)]"
proof -
  have "iso_to_epoch (PStr (strftime (gmtime t))) = Inr t"
    using assms by (intro iso_to_epoch_strftime) simp_all
  with assms(1) show ?thesis
    by (simp add: adapt_cookie_unfold template_fields base_fields_def py_or_def
          same_site_value_def same_site_label_def same_site_map_def)
qed

lemma synth_seconds_bounds:
  assumes "0 \<le> now_week clk" "now_week clk < 253399705200"
    "0 \<le> jitter_week clk" "jitter_week clk \<le> 3600"
    "0 \<le> now_month clk" "now_month clk < 253399705200"
    "0 \<le> jitter_month clk" "jitter_month clk \<le> 3600"
  shows "0 < synth_seconds clk name" "synth_seconds clk name < 253402300800"
  using future_seconds_bounds [of "now_week clk" "jitter_week clk" 7]
    future_seconds_bounds [of "now_month clk" "jitter_month clk" 30] assms
  by (simp_all add: synth_seconds_def)

text \<open>
  C3. While the clock reads a time from 1970 on and the formatted year has four
  digits, the import adapter applied to each entry of the export adapter returns a
  cookie whose sameSite is Lax, the label of the exported integer 0, and whose expires
  is the very second that was formatted into the entry's Expires, hence a second of the
  same day.
\<close>

theorem export_import_roundtrip:
  assumes "0 \<le> now_week clk" "now_week clk < 253399705200"
    "0 \<le> jitter_week clk" "jitter_week clk \<le> 3600"
    "0 \<le> now_month clk" "now_month clk < 253399705200"
    "0 \<le> jitter_month clk" "jitter_month clk \<le> 3600"
  shows "list_all2
           (\<lambda>name e.
              dict_get e ''Name'' PNone = PStr name
              \<and> dict_get e ''SameSite'' PNone = PInt 0 \<and> same_site_map 0 = Some ''Lax''
              \<and> dict_get e ''Expires'' PNone = PStr (strftime (gmtime (synth_seconds clk name)))
              \<and> (\<exists>r t. adapt_cookie e = Inr r
                    \<and> map_of r ''sameSite'' = Some (PStr ''Lax'')
                    \<and> map_of r ''expires'' = Some (PInt t)
                    \<and> t = synth_seconds clk name
                    \<and> t div 86400 = synth_seconds clk name div 86400))
           COOKIE_NAMES (build_cookie_payload clk cv)"
proof -
  have "dict_get (create_cookie_template name v (strftime (gmtime (synth_seconds clk name))))
            ''Name'' PNone = PStr name
        \<and> dict_get (create_cookie_template name v (strftime (gmtime (synth_seconds clk name))))
            ''SameSite'' PNone = PInt 0 \<and> same_site_map 0 = Some ''Lax''
        \<and> dict_get (create_cookie_template name v (strftime (gmtime (synth_seconds clk name))))
            ''Expires'' PNone = PStr (strftime (gmtime (synth_seconds clk name)))
        \<and> (\<exists>r t. adapt_cookie (create_cookie_template name v
                       (strftime (gmtime (synth_seconds clk name)))) = Inr r
              \<and> map_of r ''sameSite'' = Some (PStr ''Lax'')
              \<and> map_of r ''expires'' = Some (PInt t)
              \<and> t = synth_seconds clk name
              \<and> t div 86400 = synth_seconds clk name div 86400)" for name v
  proof -
    note b = synth_seconds_bounds [OF assms, of name]
    from adapt_cookie_template [OF b, of name v] show ?thesis
      by (simp add: template_fields same_site_map_def)
  qed
  then show ?thesis
    by (simp add: build_cookie_payload_map list_all2_map2 list_all2_same)
qed

text \<open>C3 at a clock of November 2023 with a jitter of half an hour.\<close>

theorem export_import_roundtrip_witness:
  "(0::real) \<le> 1700000000 \<and> (1700000000::real) < 253399705200
   \<and> (0::real) \<le> 1800 \<and> (1800::real) \<le> 3600
   \<and> synth_seconds \<lparr>now_week = 1700000000, jitter_week = 1800,
                      now_month = 1700000000, jitter_month = 1800\<rparr> ''ct0'' = 1700606600
   \<and> list_all2
        (\<lambda>name e.
           dict_get e ''Name'' PNone = PStr name
           \<and> dict_get e ''SameSite'' PNone = PInt 0 \<and> same_site_map 0 = Some ''Lax''
           \<and> dict_get e ''Expires'' PNone
               = PStr (strftime (gmtime (synth_seconds
                   \<lparr>now_week = 1700000000, jitter_week = 1800,
                    now_month = 1700000000, jitter_month = 1800\<rparr> name)))
           \<and> (\<exists>r t. adapt_cookie e = Inr r
                 \<and> map_of r ''sameSite'' = Some (PStr ''Lax'')
                 \<and> map_of r ''expires'' = Some (PInt t)
                 \<and> t = synth_seconds \<lparr>now_week = 1700000000, jitter_week = 1800,
                          now_month = 1700000000, jitter_month = 1800\<rparr> name
                 \<and> t div 86400
                     = synth_seconds \<lparr>now_week = 1700000000, jitter_week = 1800,
                          now_month = 1700000000, jitter_month = 1800\<rparr> name div 86400))
        COOKIE_NAMES
        (build_cookie_payload
           \<lparr>now_week = 1700000000, jitter_week = 1800,
            now_month = 1700000000, jitter_month = 1800\<rparr>
           [(''personalization_id'', ''p1''), (''kdt'', ''k1''), (''twid'', ''u1''),
            (''ct0'', ''c1''), (''auth_token'', ''a1''), (''att'', ''t1'')])"
proof -
  let ?clk = "\<lparr>now_week = 1700000000, jitter_week = 1800,
               now_month = 1700000000, jitter_month = 1800\<rparr>"
  have s: "synth_seconds ?clk ''ct0'' = 1700606600"
    by (simp add: synth_seconds_def future_seconds_def)
  show ?thesis
    using export_import_roundtrip [of ?clk] s by simp
qed

section \<open>Properties of the two runs\<close>

lemma missing_nonempty:
  "(n, []) \<in> set cookies \<Longrightarrow> [name. (name, val) \<leftarrow> cookies, val = []] \<noteq> []"
  by (induction cookies) auto

lemma extract_and_save_incomplete:
  assumes "jar w = Inr browser_cookies"
    and "map_of (extract_cookies browser_cookies) name = Some []"
  shows "extract_and_save w = []"
proof -
  from assms(2) have "(name, []) \<in> set (extract_cookies browser_cookies)"
    by (rule map_of_SomeD)
  then have "[n. (n, val) \<leftarrow> extract_cookies browser_cookies, val = []] \<noteq> []"
    by (rule missing_nonempty)
  with assms(1) show ?thesis
    by (simp add: extract_and_save_def Let_def)
qed

lemma login_with_token_events:
  "login_with_token w tok = (evs, res) \<Longrightarrow> filter persists evs = []"
  by (auto simp: login_with_token_def Let_def split: if_splits)

lemma main_persists:
  "filter persists (main w) = [] \<or> filter persists (main w) = filter persists (extract_and_save w)"
proof (cases "login_with_token w (X_AUTH_TOKEN w)")
  case (Pair evs res)
  from login_with_token_events [OF Pair] have "filter persists evs = []" .
  with Pair show ?thesis
    by (simp add: main_def split: connection.splits sum.splits bool.splits)
qed

text \<open>
  C2. Whenever the extraction gives the empty string for one of the six names, the run
  of \<^verbatim>\<open>main\<close> ends with a trace that holds no write of the cookie file and no start
  of the scraper, whatever the rest of the world does.
\<close>

theorem main_incomplete_never_persists:
  assumes "jar w = Inr browser_cookies"
    and "name \<in> set COOKIE_NAMES"
    and "map_of (extract_cookies browser_cookies) name = Some []"
  shows "filter persists (main w) = []"
  using main_persists [of w] extract_and_save_incomplete [OF assms(1,3)] by auto

lemma extract_and_save_complete:
  assumes "jar w = Inr browser_cookies"
    and "\<forall>(n, v) \<in> set (extract_cookies browser_cookies). v \<noteq> []"
    and "can_write w"
  shows "hd (extract_and_save w)
         = WriteFile (OUTPUT_DIR w @ ''/'' @ X_ACCOUNT w @ ''_twitter_cookies.json'')
             (build_cookie_payload (clock w) (extract_cookies browser_cookies))"
proof -
  have "[n. (n, val) \<leftarrow> cookies, val = []] = []" if "\<forall>(n, v) \<in> set cookies. v \<noteq> []"
    for cookies :: "(string \<times> string) list"
    using that by (induction cookies) auto
  from this [OF assms(2)] assms(1,3) show ?thesis
    by (simp add: extract_and_save_def Let_def save_cookies_def)
qed

text \<open>C2 in a world whose browser is logged in and has every cookie but twid.\<close>

theorem main_incomplete_never_persists_witness:
  "jar incomplete_world = Inr incomplete_jar
   \<and> ''twid'' \<in> set COOKIE_NAMES
   \<and> map_of (extract_cookies incomplete_jar) ''twid'' = Some []
   \<and> filter persists (main incomplete_world) = []
   \<and> main incomplete_world = [Connect ''http://localhost:9222'', BrowserClose]"
proof -
  have j: "jar incomplete_world = Inr incomplete_jar" by (simp add: incomplete_world_def)
  have n: "''twid'' \<in> set COOKIE_NAMES" by (simp add: COOKIE_NAMES_def)
  have e: "map_of (extract_cookies incomplete_jar) ''twid'' = Some []"
    by (simp add: extract_cookies_def COOKIE_NAMES_def incomplete_jar_def)
  have "extract_and_save incomplete_world = []"
    using j e by (rule extract_and_save_incomplete)
  then have m: "main incomplete_world = [Connect ''http://localhost:9222'', BrowserClose]"
    by (simp add: main_def) (simp add: incomplete_world_def)
  from main_incomplete_never_persists [OF j n e] j n e m show ?thesis by blast
qed

text \<open>
  C7, as stated: a cookie file that is not valid JSON would end the run with
  SystemExit. A file whose bytes are not UTF-8, and a file holding one integer of five
  thousand digits (whose top-level value is not a list either), make \<^verbatim>\<open>json.load\<close> raise
  UnicodeDecodeError and ValueError; \<^verbatim>\<open>load_cookies\<close> does not catch them, and the run
  ends with them instead.
\<close>

theorem inject_main_uncaught_counterexample:
  "resolve_cookie_file (raising_world UnicodeDecodeError)
       \<lparr>cookie_file = Some ''c.json'', endpoint = ''http://localhost:9222'', username = []\<rparr>
     = Inr ''c.json''
   \<and> read_file (raising_world UnicodeDecodeError) ''c.json'' = Raises UnicodeDecodeError
   \<and> inject_main (raising_world UnicodeDecodeError)
       \<lparr>cookie_file = Some ''c.json'', endpoint = ''http://localhost:9222'', username = []\<rparr>
     = ([], Some UnicodeDecodeError)
   \<and> read_file (raising_world ValueError) ''c.json'' = Raises ValueError
   \<and> inject_main (raising_world ValueError)
       \<lparr>cookie_file = Some ''c.json'', endpoint = ''http://localhost:9222'', username = []\<rparr>
     = ([], Some ValueError)
   \<and> UnicodeDecodeError \<noteq> SystemExit \<and> ValueError \<noteq> SystemExit"
  by (simp add: inject_main_def resolve_cookie_file_def load_cookies_def raising_world_def)

text \<open>
  C7, amended: when \<^verbatim>\<open>json.load\<close> raises JSONDecodeError, or the top-level value is
  not a list, \<^verbatim>\<open>load_cookies\<close> raises SystemExit and the run ends with it; when opening
  or loading raises any other exception, the run ends with that exception. Whenever
  no list is loaded the trace is empty and the run ends with an exception: no
  connection to the browser, no cookie added.
\<close>

theorem inject_main_load_failure:
  assumes "resolve_cookie_file w a = Inr p"
  shows "(read_file w p = Raises JSONDecodeError
            \<or> (\<exists>data. read_file w p = Loaded data \<and> (\<forall>xs. data \<noteq> PList xs))
          \<longrightarrow> load_cookies w p = Inl SystemExit \<and> inject_main w a = ([], Some SystemExit))
       \<and> (\<forall>e. read_file w p = Raises e \<longrightarrow> e \<noteq> JSONDecodeError
          \<longrightarrow> load_cookies w p = Inl e \<and> inject_main w a = ([], Some e))
       \<and> ((\<forall>xs. read_file w p \<noteq> Loaded (PList xs))
          \<longrightarrow> fst (inject_main w a) = [] \<and> snd (inject_main w a) \<noteq> None)"
proof (intro conjI allI impI)
  assume "read_file w p = Raises JSONDecodeError
            \<or> (\<exists>data. read_file w p = Loaded data \<and> (\<forall>xs. data \<noteq> PList xs))"
  then show l: "load_cookies w p = Inl SystemExit"
    by (auto simp: load_cookies_def split: pyval.splits)
  with assms show "inject_main w a = ([], Some SystemExit)" by (simp add: inject_main_def)
next
  fix e assume "read_file w p = Raises e" "e \<noteq> JSONDecodeError"
  then show l: "load_cookies w p = Inl e" by (simp add: load_cookies_def)
  with assms show "inject_main w a = ([], Some e)" by (simp add: inject_main_def)
next
  assume n: "\<forall>xs. read_file w p \<noteq> Loaded (PList xs)"
  then have "\<exists>e. load_cookies w p = Inl e"
    by (auto simp: load_cookies_def split: file_read.splits pyval.splits)
  then obtain e where "load_cookies w p = Inl e" ..
  with assms have "inject_main w a = ([], Some e)" by (simp add: inject_main_def)
  then show "fst (inject_main w a) = []" "snd (inject_main w a) \<noteq> None" by simp_all
qed

lemma inject_main_resolve_fails:
  "resolve_cookie_file w a = Inl e \<Longrightarrow> e = SystemExit \<and> inject_main w a = ([], Some SystemExit)"
  by (auto simp: resolve_cookie_file_def inject_main_def Let_def split: option.splits if_splits)

text \<open>
  The amended C7 on a file whose top-level value is an object, on one that is not
  JSON, and on one that cannot be opened.
\<close>

theorem inject_main_load_failure_witness:
  "resolve_cookie_file non_list_world
       \<lparr>cookie_file = Some ''c.json'', endpoint = ''http://localhost:9222'', username = []\<rparr>
     = Inr ''c.json''
   \<and> read_file non_list_world ''c.json'' = Loaded (PDict [(''Name'', PStr ''ct0'')])
   \<and> inject_main non_list_world
       \<lparr>cookie_file = Some ''c.json'', endpoint = ''http://localhost:9222'', username = []\<rparr>
     = ([], Some SystemExit)
   \<and> read_file (raising_world JSONDecodeError) ''c.json'' = Raises JSONDecodeError
   \<and> inject_main (raising_world JSONDecodeError)
       \<lparr>cookie_file = Some ''c.json'', endpoint = ''http://localhost:9222'', username = []\<rparr>
     = ([], Some SystemExit)
   \<and> read_file (raising_world OSError) ''c.json'' = Raises OSError
   \<and> inject_main (raising_world OSError)
       \<lparr>cookie_file = Some ''c.json'', endpoint = ''http://localhost:9222'', username = []\<rparr>
     = ([], Some OSError)"
proof -
  let ?a = "\<lparr>cookie_file = Some ''c.json'', endpoint = ''http://localhost:9222'', username = []\<rparr>"
  have r: "resolve_cookie_file w ?a = Inr ''c.json''" for w
    by (simp add: resolve_cookie_file_def)
  have f: "read_file non_list_world ''c.json'' = Loaded (PDict [(''Name'', PStr ''ct0'')])"
    by (simp add: non_list_world_def)
  have g: "read_file (raising_world e) ''c.json'' = Raises e" for e
    by (simp add: raising_world_def)
  from inject_main_load_failure [OF r, of non_list_world] f
  have 1: "inject_main non_list_world ?a = ([], Some SystemExit)" by simp
  from inject_main_load_failure [OF r, of "raising_world JSONDecodeError"] g
  have 2: "inject_main (raising_world JSONDecodeError) ?a = ([], Some SystemExit)" by simp
  from inject_main_load_failure [OF r, of "raising_world OSError"] g
  have 3: "inject_main (raising_world OSError) ?a = ([], Some OSError)" by simp
  from r f g 1 2 3 show ?thesis by blast
qed

lemma adapt_all_named_entries:
  "adapt_all cookies = Inr adapted \<Longrightarrow> map Inr adapted = map adapt_cookie (named_entries cookies)"
proof (induction cookies arbitrary: adapted)
  case Nil
  then show ?case by simp
next
  case (Cons item items)
  show ?case
  proof (cases item)
    case (PDict d)
    show ?thesis
    proof (cases "truthy (dict_get d ''Name'' PNone)")
      case True
      with Cons.prems PDict obtain a as where
        a: "adapt_cookie d = Inr a" "adapt_all items = Inr as" "adapted = a # as"
        by (auto split: sum.splits)
      from Cons.IH [OF a(2)] a True PDict show ?thesis by simp
    next
      case False
      with Cons.prems PDict have "adapt_all items = Inr adapted" by simp
      from Cons.IH [OF this] False PDict show ?thesis by simp
    qed
  qed (use Cons.prems in simp_all)
qed

lemma adapt_all_nameless:
  "\<forall>item \<in> set cookies. \<exists>d. item = PDict d \<and> \<not> truthy (dict_get d ''Name'' PNone)
   \<Longrightarrow> adapt_all cookies = Inr []"
  by (induction cookies) auto

lemma inject_and_open_empty:
  assumes "adapt_all cookies = Inr []"
  shows "filter injects (fst (inject_and_open w ep cookies)) = []"
    and "snd (inject_and_open w ep cookies) \<noteq> None"
    and "cdp_reachable w \<Longrightarrow> has_contexts w
         \<Longrightarrow> inject_and_open w ep cookies = ([Connect ep], Some SystemExit)"
  using assms by (simp_all add: inject_and_open_def)

text \<open>
  C10. The cookies that \<^verbatim>\<open>inject_and_open\<close> adapts are those of the entries with a
  truthy Name, in order, so an entry whose Name is missing or empty is dropped before
  \<^verbatim>\<open>adapt_cookie\<close> sees it. When nothing is left, as when every entry lacks a Name,
  the run ends with an exception before any cookie is added; the exception is
  SystemExit once the browser has answered with a context.
\<close>

theorem inject_and_open_skips_nameless:
  "(\<forall>adapted. adapt_all cookies = Inr adapted \<longrightarrow>
        map Inr adapted = map adapt_cookie (named_entries cookies))
   \<and> ((\<forall>item \<in> set cookies. \<exists>d. item = PDict d \<and> \<not> truthy (dict_get d ''Name'' PNone))
        \<longrightarrow> named_entries cookies = [] \<and> adapt_all cookies = Inr [])
   \<and> (adapt_all cookies = Inr [] \<longrightarrow>
        filter injects (fst (inject_and_open w ep cookies)) = []
        \<and> snd (inject_and_open w ep cookies) \<noteq> None
        \<and> (cdp_reachable w \<and> has_contexts w \<longrightarrow>
             inject_and_open w ep cookies = ([Connect ep], Some SystemExit)))"
proof (intro conjI allI impI)
  fix adapted assume "adapt_all cookies = Inr adapted"
  then show "map Inr adapted = map adapt_cookie (named_entries cookies)"
    by (rule adapt_all_named_entries)
next
  assume a: "\<forall>item \<in> set cookies. \<exists>d. item = PDict d \<and> \<not> truthy (dict_get d ''Name'' PNone)"
  then show "adapt_all cookies = Inr []" by (rule adapt_all_nameless)
  from adapt_all_named_entries [OF this] show "named_entries cookies = []" by simp
next
  assume e: "adapt_all cookies = Inr []"
  show "filter injects (fst (inject_and_open w ep cookies)) = []"
    and "snd (inject_and_open w ep cookies) \<noteq> None"
    using inject_and_open_empty(1,2) [OF e] by simp_all
  assume "cdp_reachable w \<and> has_contexts w"
  with inject_and_open_empty(3) [OF e]
  show "inject_and_open w ep cookies = ([Connect ep], Some SystemExit)" by simp
qed

text \<open>
  C10 on two nameless entries, the second with a sameSite that \<^verbatim>\<open>adapt_cookie\<close> would
  reject.
\<close>

theorem inject_and_open_skips_nameless_witness:
  "named_entries [PDict [(''Value'', PStr ''v'')],
                  PDict [(''Name'', PStr []), (''SameSite'', PList [])]] = []
   \<and> adapt_all [PDict [(''Value'', PStr ''v'')],
                 PDict [(''Name'', PStr []), (''SameSite'', PList [])]] = Inr []
   \<and> cdp_reachable non_list_world \<and> has_contexts non_list_world
   \<and> inject_and_open non_list_world ''http://localhost:9222''
        [PDict [(''Value'', PStr ''v'')], PDict [(''Name'', PStr []), (''SameSite'', PList [])]]
      = ([Connect ''http://localhost:9222''], Some SystemExit)"
proof -
  let ?cs = "[PDict [(''Value'', PStr ''v'')],
              PDict [(''Name'', PStr []), (''SameSite'', PList [])]]"
  have n: "\<forall>item \<in> set ?cs. \<exists>d. item = PDict d \<and> \<not> truthy (dict_get d ''Name'' PNone)"
    by (simp add: dict_get_def)
  have w: "cdp_reachable non_list_world \<and> has_contexts non_list_world"
    by (simp add: non_list_world_def)
  from inject_and_open_skips_nameless [of ?cs non_list_world "''http://localhost:9222''"] n w
  show ?thesis by blast
qed

end
